theory Spec2Isabelle
  imports Main "HOL-Library.Word"
begin

section \<open>JavaScript strings\<close>

text \<open>
  A JavaScript string is a sequence of UTF-16 code units, and \<open>length\<close> counts code
  units. The handlers of \<open>poll-actions.ts\<close> only trim, filter, measure and compare
  strings, so a string is modelled as the list of its code units. \<open>js\<close> embeds an
  ASCII literal.
\<close>

type_synonym code_unit = "16 word"
type_synonym jsstring = "code_unit list"

definition js :: "string \<Rightarrow> jsstring" where
  "js s = map of_char s"

text \<open>
  \<open>String.prototype.trim\<close> removes WhiteSpace and LineTerminator code points from both
  ends: TAB, LF, VT, FF, CR, SPACE, NBSP, U+1680, U+2000..U+200A, U+2028, U+2029,
  U+202F, U+205F, U+3000 and U+FEFF.
\<close>

definition isWhiteSpace :: "code_unit \<Rightarrow> bool" where
  "isWhiteSpace c \<longleftrightarrow>
     c \<in> {0x0009, 0x000A, 0x000B, 0x000C, 0x000D, 0x0020, 0x00A0, 0x1680,
          0x2028, 0x2029, 0x202F, 0x205F, 0x3000, 0xFEFF}
     \<or> (0x2000 \<le> c \<and> c \<le> 0x200A)"

definition trim :: "jsstring \<Rightarrow> jsstring" where
  "trim s = rev (dropWhile isWhiteSpace (rev (dropWhile isWhiteSpace s)))"

text \<open>The character class \<open>[<>"'&]\<close> of the sanitizer's regular expression.\<close>

definition dangerous :: "code_unit set" where
  "dangerous = {0x3C, 0x3E, 0x22, 0x27, 0x26}"

section \<open>Sanitizer and validator\<close>

text \<open>
  \<^verbatim>\<open>function sanitizeInput(input: string): string {
    return input.trim().replace(/[<>"'&]/g, '');
  }\<close>
  The global replace by the empty string deletes every code unit of the class.
\<close>

definition sanitizeInput :: "jsstring \<Rightarrow> jsstring" where
  "sanitizeInput input = filter (\<lambda>c. c \<notin> dangerous) (trim input)"

text \<open>
  \<open>validatePollInput\<close>: the five checks in the order of the source. For a string,
  \<open>!question\<close> holds exactly for the empty string.
\<close>

definition validatePollInput :: "jsstring \<Rightarrow> jsstring list \<Rightarrow> string option" where
  "validatePollInput question opts =
     (if question = [] \<or> length (trim question) < 3 then
        Some ''Question must be at least 3 characters long.''
      else if length opts < 2 then
        Some ''Please provide at least two options.''
      else if list_ex (\<lambda>opt. opt = [] \<or> length (trim opt) = 0) opts then
        Some ''All options must contain valid text.''
      else if length question > 500 then
        Some ''Question is too long (max 500 characters).''
      else if list_ex (\<lambda>opt. length opt > 200) opts then
        Some ''Options are too long (max 200 characters each).''
      else None)"

text \<open>
  The validator as section 4.2 of the specification words it: the first failing check,
  in the fixed order, decides the message.
\<close>

definition validate_spec :: "jsstring \<Rightarrow> jsstring list \<Rightarrow> string option" where
  "validate_spec q opts =
     (if \<not> 3 \<le> length (trim q) then
        Some ''Question must be at least 3 characters long.''
      else if \<not> 2 \<le> length opts then
        Some ''Please provide at least two options.''
      else if \<exists>opt \<in> set opts. trim opt = [] then
        Some ''All options must contain valid text.''
      else if \<not> length q \<le> 500 then
        Some ''Question is too long (max 500 characters).''
      else if \<exists>opt \<in> set opts. \<not> length opt \<le> 200 then
        Some ''Options are too long (max 200 characters each).''
      else None)"

section \<open>Poll identifiers\<close>

text \<open>
  \<^verbatim>\<open>/^[0-9a-f]{8}-[0-9a-f]{4}-[0-9a-f]{4}-[0-9a-f]{4}-[0-9a-f]{12}$/i\<close>
  The expression is anchored at both ends and has no alternative, so it is matched from
  left to right: \<open>hexDigits n\<close> consumes \<open>[0-9a-f]{n}\<close> (with the flag \<open>i\<close>, also
  \<open>A-F\<close>), \<open>hyphen\<close> consumes \<open>-\<close>, and nothing may remain.
\<close>

definition isHexDigit :: "code_unit \<Rightarrow> bool" where
  "isHexDigit c \<longleftrightarrow>
     (0x30 \<le> c \<and> c \<le> 0x39) \<or> (0x61 \<le> c \<and> c \<le> 0x66) \<or> (0x41 \<le> c \<and> c \<le> 0x46)"

fun hexDigits :: "nat \<Rightarrow> jsstring \<Rightarrow> jsstring option" where
  "hexDigits 0 s = Some s"
| "hexDigits (Suc n) [] = None"
| "hexDigits (Suc n) (c # s) = (if isHexDigit c then hexDigits n s else None)"

fun hyphen :: "jsstring \<Rightarrow> jsstring option" where
  "hyphen [] = None"
| "hyphen (c # s) = (if c = 0x2D then Some s else None)"

definition isValidPollId :: "jsstring \<Rightarrow> bool" where
  "isValidPollId pid =
     (Option.bind (Option.bind (Option.bind (Option.bind (Option.bind (Option.bind
        (Option.bind (Option.bind (hexDigits 8 pid) hyphen) (hexDigits 4)) hyphen)
        (hexDigits 4)) hyphen) (hexDigits 4)) hyphen) (hexDigits 12) = Some [])"

section \<open>The backend\<close>

text \<open>
  The handlers reach the authentication provider and the tables \<open>polls\<close> and
  \<open>votes\<close> through the Supabase client, which is not part of the repository. The store
  is modelled as the two tables, each a list of rows, together with the list of the
  calls the handlers have made so far, so that "no backend call" is a statement about
  the state. A poll row has the columns the handlers read or write; a vote row has the
  three columns \<open>submitVote\<close> inserts.
\<close>

type_synonym user_id = jsstring

record poll_row =
  poll_id :: jsstring
  poll_user_id :: user_id
  poll_question :: jsstring
  poll_options :: "jsstring list"
  poll_created_at :: nat

record vote_row =
  vote_poll_id :: jsstring
  vote_user_id :: "user_id option"
  vote_option_index :: int

datatype call =
    AuthGetUser | AuthSignIn | AuthSignUp | AuthSignOut | AuthGetSession
  | PollsInsert | PollsSelectByUser | PollsSelectById | PollsSelectOptions
  | PollsDelete | PollsUpdate
  | VotesSelect | VotesInsert
  | RevalidatePath

record backend =
  polls_table :: "poll_row list"
  votes_table :: "vote_row list"
  calls :: "call list"

text \<open>
  What one invocation of a handler meets outside the tables: the answer of
  \<open>supabase.auth.getUser()\<close>, the calls that the backend fails with an error during this
  invocation, the identifier and timestamp the store gives to an inserted poll row, and
  the answers of the authentication provider to the calls of \<open>auth-actions.ts\<close>: for
  \<open>signInWithPassword\<close>, \<open>signUp\<close> and \<open>signOut\<close> the message of the error, if there
  is one, and for \<open>getSession\<close> the session, if there is one. The provider owns the
  session; of its record the user and the expiry are kept.
\<close>

record session =
  session_user :: user_id
  session_expires_at :: nat

datatype auth_response = AuthFailure | NoUser | User user_id

fun auth_user :: "auth_response \<Rightarrow> user_id option" where
  "auth_user (User u) = Some u"
| "auth_user _ = None"

fun auth_error :: "auth_response \<Rightarrow> bool" where
  "auth_error AuthFailure = True"
| "auth_error _ = False"

record env =
  env_auth :: auth_response
  env_failing :: "call set"
  env_new_id :: jsstring
  env_now :: nat
  env_sign_in_error :: "string option"
  env_sign_up_error :: "string option"
  env_sign_out_error :: "string option"
  env_session :: "session option"

definition record_call :: "call \<Rightarrow> backend \<Rightarrow> backend" where
  "record_call c b = b\<lparr>calls := calls b @ [c]\<rparr>"

definition auth_getUser :: "env \<Rightarrow> backend \<Rightarrow> auth_response \<times> backend" where
  "auth_getUser e b = (env_auth e, record_call AuthGetUser b)"

definition revalidatePath :: "backend \<Rightarrow> backend" where
  "revalidatePath b = record_call RevalidatePath b"

definition auth_signInWithPassword ::
  "env \<Rightarrow> jsstring \<Rightarrow> jsstring \<Rightarrow> backend \<Rightarrow> string option \<times> backend" where
  "auth_signInWithPassword e email password b = (env_sign_in_error e, record_call AuthSignIn b)"

definition auth_signUp ::
  "env \<Rightarrow> jsstring \<Rightarrow> jsstring \<Rightarrow> jsstring \<Rightarrow> backend \<Rightarrow> string option \<times> backend" where
  "auth_signUp e email password name b = (env_sign_up_error e, record_call AuthSignUp b)"

definition auth_signOut :: "env \<Rightarrow> backend \<Rightarrow> string option \<times> backend" where
  "auth_signOut e b = (env_sign_out_error e, record_call AuthSignOut b)"

definition auth_getSession :: "env \<Rightarrow> backend \<Rightarrow> session option \<times> backend" where
  "auth_getSession e b = (env_session e, record_call AuthGetSession b)"

text \<open>
  \<open>.single()\<close> answers with the row when the query selects exactly one row, and with an
  error and no data otherwise.
\<close>

definition single_row :: "'a list \<Rightarrow> 'a option" where
  "single_row rows = (case rows of [r] \<Rightarrow> Some r | _ \<Rightarrow> None)"

text \<open>
  The table operations. Each returns the fields of the client's answer that the handler
  reads (\<open>data\<close>, and \<open>error\<close> as a flag) and the store after the call. A call that
  the backend fails leaves the tables as they were.
\<close>

definition polls_insert ::
  "env \<Rightarrow> user_id \<Rightarrow> jsstring \<Rightarrow> jsstring list \<Rightarrow> backend \<Rightarrow> bool \<times> backend" where
  "polls_insert e uid question opts b =
     (if PollsInsert \<in> env_failing e then (True, record_call PollsInsert b)
      else (False, record_call PollsInsert
              (b\<lparr>polls_table := polls_table b @
                 [\<lparr>poll_id = env_new_id e, poll_user_id = uid, poll_question = question,
                   poll_options = opts, poll_created_at = env_now e\<rparr>]\<rparr>)))"

definition polls_select_by_user ::
  "env \<Rightarrow> user_id \<Rightarrow> backend \<Rightarrow> (poll_row list \<times> bool) \<times> backend" where
  "polls_select_by_user e uid b =
     (if PollsSelectByUser \<in> env_failing e then (([], True), record_call PollsSelectByUser b)
      else ((rev (sort_key poll_created_at (filter (\<lambda>p. poll_user_id p = uid) (polls_table b))),
             False), record_call PollsSelectByUser b))"

definition polls_select_by_id ::
  "env \<Rightarrow> jsstring \<Rightarrow> backend \<Rightarrow> (poll_row option \<times> bool) \<times> backend" where
  "polls_select_by_id e pid b =
     (if PollsSelectById \<in> env_failing e then ((None, True), record_call PollsSelectById b)
      else (case single_row (filter (\<lambda>p. poll_id p = pid) (polls_table b)) of
              None \<Rightarrow> ((None, True), record_call PollsSelectById b)
            | Some p \<Rightarrow> ((Some p, False), record_call PollsSelectById b)))"

definition polls_select_options ::
  "env \<Rightarrow> jsstring \<Rightarrow> backend \<Rightarrow> (jsstring list option \<times> bool) \<times> backend" where
  "polls_select_options e pid b =
     (if PollsSelectOptions \<in> env_failing e then ((None, True), record_call PollsSelectOptions b)
      else (case single_row (filter (\<lambda>p. poll_id p = pid) (polls_table b)) of
              None \<Rightarrow> ((None, True), record_call PollsSelectOptions b)
            | Some p \<Rightarrow> ((Some (poll_options p), False), record_call PollsSelectOptions b)))"

definition votes_select ::
  "env \<Rightarrow> jsstring \<Rightarrow> user_id \<Rightarrow> backend \<Rightarrow> (vote_row option \<times> bool) \<times> backend" where
  "votes_select e pid uid b =
     (if VotesSelect \<in> env_failing e then ((None, True), record_call VotesSelect b)
      else (case single_row (filter (\<lambda>v. vote_poll_id v = pid \<and> vote_user_id v = Some uid)
                               (votes_table b)) of
              None \<Rightarrow> ((None, True), record_call VotesSelect b)
            | Some v \<Rightarrow> ((Some v, False), record_call VotesSelect b)))"

definition votes_insert ::
  "env \<Rightarrow> jsstring \<Rightarrow> user_id option \<Rightarrow> int \<Rightarrow> backend \<Rightarrow> bool \<times> backend" where
  "votes_insert e pid user i b =
     (if VotesInsert \<in> env_failing e then (True, record_call VotesInsert b)
      else (False, record_call VotesInsert
              (b\<lparr>votes_table := votes_table b @
                 [\<lparr>vote_poll_id = pid, vote_user_id = user, vote_option_index = i\<rparr>]\<rparr>)))"

text \<open>
  A delete filtered by id and owner that selects no row is not an error. The votes of a
  deleted poll go with it (the cascade that \<open>deletePoll\<close>'s documentation relies on).
\<close>

definition polls_delete :: "env \<Rightarrow> jsstring \<Rightarrow> user_id \<Rightarrow> backend \<Rightarrow> bool \<times> backend" where
  "polls_delete e pid uid b =
     (if PollsDelete \<in> env_failing e then (True, record_call PollsDelete b)
      else (False, record_call PollsDelete
              (b\<lparr>polls_table :=
                   filter (\<lambda>p. \<not> (poll_id p = pid \<and> poll_user_id p = uid)) (polls_table b),
                 votes_table :=
                   (if list_ex (\<lambda>p. poll_id p = pid \<and> poll_user_id p = uid) (polls_table b)
                    then filter (\<lambda>v. vote_poll_id v \<noteq> pid) (votes_table b)
                    else votes_table b)\<rparr>)))"

definition polls_update ::
  "env \<Rightarrow> jsstring \<Rightarrow> user_id \<Rightarrow> jsstring \<Rightarrow> jsstring list \<Rightarrow> backend \<Rightarrow> bool \<times> backend" where
  "polls_update e pid uid question opts b =
     (if PollsUpdate \<in> env_failing e then (True, record_call PollsUpdate b)
      else (False, record_call PollsUpdate
              (b\<lparr>polls_table :=
                   map (\<lambda>p. if poll_id p = pid \<and> poll_user_id p = uid
                            then p\<lparr>poll_question := question, poll_options := opts\<rparr> else p)
                       (polls_table b)\<rparr>)))"

section \<open>Form data and handler results\<close>

text \<open>
  A \<open>FormData\<close> is a list of entries, each a name with a string or a file.
  \<open>get\<close> returns the first value of the name or \<open>null\<close>; \<open>getAll\<close> returns all of
  them in order.
\<close>

datatype form_value = FormString jsstring | FormFile

type_synonym form_data = "(jsstring \<times> form_value) list"

definition formData_get :: "form_data \<Rightarrow> jsstring \<Rightarrow> form_value option" where
  "formData_get fd name = map_option snd (find (\<lambda>entry. fst entry = name) fd)"

definition formData_getAll :: "form_data \<Rightarrow> jsstring \<Rightarrow> form_value list" where
  "formData_getAll fd name = map snd (filter (\<lambda>entry. fst entry = name) fd)"

text \<open>\<open>Boolean(v)\<close>: a string is truthy unless it is empty; a file object is truthy.\<close>

fun truthy :: "form_value \<Rightarrow> bool" where
  "truthy (FormString s) \<longleftrightarrow> s \<noteq> []"
| "truthy FormFile \<longleftrightarrow> True"

text \<open>
  \<open>formData.get("question") as string\<close> and \<open>formData.getAll("options") as string[]\<close>
  are unchecked casts. \<open>sanitizeInput\<close> called on \<open>null\<close> or on a file evaluates
  \<open>input.trim()\<close> on a value without that method and throws a \<open>TypeError\<close>.
\<close>

datatype exn = TypeError

fun sanitizeInput_call :: "form_value option \<Rightarrow> exn + jsstring" where
  "sanitizeInput_call (Some (FormString s)) = Inr (sanitizeInput s)"
| "sanitizeInput_call (Some FormFile) = Inl TypeError"
| "sanitizeInput_call None = Inl TypeError"

fun sanitizeInput_map :: "form_value list \<Rightarrow> exn + jsstring list" where
  "sanitizeInput_map [] = Inr []"
| "sanitizeInput_map (v # vs) =
     (case sanitizeInput_call (Some v) of
        Inl x \<Rightarrow> Inl x
      | Inr s \<Rightarrow> (case sanitizeInput_map vs of Inl x \<Rightarrow> Inl x | Inr ss \<Rightarrow> Inr (s # ss)))"

datatype action_result = ActionResult (error: "string option")

datatype poll_result = PollResult (poll: "poll_row option") (poll_error: "string option")

datatype polls_result = PollsResult (polls: "poll_row list") (polls_error: "string option")

text \<open>
  \<open>optionIndex: number\<close>. \<open>Number.isInteger\<close> accepts exactly the finite numbers
  without a fractional part; every other number (a fraction, \<open>NaN\<close>, an infinity) is
  \<open>NonInteger\<close>.
\<close>

datatype js_number = Integer int | NonInteger

section \<open>The handlers of poll-actions.ts\<close>

text \<open>
  Each handler takes the environment of the invocation, its arguments and the store, and
  returns its result with the store after it. \<open>createClient()\<close> builds the client and
  touches neither table, so it leaves no trace here. A handler that can throw returns
  \<open>Inl\<close> of the exception. Only \<open>createPoll\<close> and \<open>updatePoll\<close> have a statement
  that can throw once the awaited calls have answered, the call of a method on the value
  of a form field; the others test, compare and destructure, which no string, number or
  answer of the client makes throw.

  \<open>createPoll\<close> (lines 121 to 160): sanitize the question, then the truthy options,
  validate, ask for the user, insert, revalidate the listing. \<open>if (validationError)\<close>
  holds for each of the validator's messages, none being empty.
\<close>

definition createPoll :: "env \<Rightarrow> form_data \<Rightarrow> backend \<Rightarrow> (exn + action_result) \<times> backend" where
  "createPoll e formData b =
     (case sanitizeInput_call (formData_get formData (js ''question'')) of
        Inl x \<Rightarrow> (Inl x, b)
      | Inr question \<Rightarrow>
     (case sanitizeInput_map (filter truthy (formData_getAll formData (js ''options''))) of
        Inl x \<Rightarrow> (Inl x, b)
      | Inr opts \<Rightarrow>
     (case validatePollInput question opts of
        Some validationError \<Rightarrow> (Inr (ActionResult (Some validationError)), b)
      | None \<Rightarrow>
         (let (auth, b1) = auth_getUser e b in
          if auth_error auth then
            (Inr (ActionResult (Some ''Authentication error. Please try again.'')), b1)
          else case auth_user auth of
            None \<Rightarrow> (Inr (ActionResult (Some ''You must be logged in to create a poll.'')), b1)
          | Some uid \<Rightarrow>
             (let (failed, b2) = polls_insert e uid question opts b1 in
              if failed then
                (Inr (ActionResult (Some ''Failed to create poll. Please try again.'')), b2)
              else (Inr (ActionResult None), revalidatePath b2))))))"

text \<open>
  \<open>getUserPolls\<close> (lines 190 to 205) reads only \<open>user\<close> from the answer of
  \<open>getUser\<close>; the rows of the caller come newest first.
\<close>

definition getUserPolls :: "env \<Rightarrow> backend \<Rightarrow> polls_result \<times> backend" where
  "getUserPolls e b =
     (let (auth, b1) = auth_getUser e b in
      case auth_user auth of
        None \<Rightarrow> (PollsResult [] (Some ''Not authenticated''), b1)
      | Some uid \<Rightarrow>
         (let ((data, failed), b2) = polls_select_by_user e uid b1 in
          if failed then (PollsResult [] (Some ''Failed to fetch polls.''), b2)
          else (PollsResult data None, b2)))"

text \<open>\<open>getPollById\<close> (lines 237 to 252): the identifier check, then one query with \<open>.single()\<close>.\<close>

definition getPollById :: "env \<Rightarrow> jsstring \<Rightarrow> backend \<Rightarrow> poll_result \<times> backend" where
  "getPollById e pid b =
     (if \<not> isValidPollId pid then (PollResult None (Some ''Invalid poll ID format.''), b)
      else
        (let ((data, failed), b1) = polls_select_by_id e pid b in
         if failed then (PollResult None (Some ''Poll not found.''), b1)
         else (PollResult data None, b1)))"

text \<open>
  \<open>submitVote\<close> (lines 287 to 339): the identifier check, the check of the index, the
  user (absent for an anonymous caller), the fetch of the poll's options, the upper bound
  of the index, for a user the lookup of an existing vote (of whose answer only \<open>data\<close>
  is read), and the insert.
\<close>

text \<open>The end of \<open>submitVote\<close>: the insert and the mapping of its answer.\<close>

definition submitVote_insert ::
  "env \<Rightarrow> jsstring \<Rightarrow> user_id option \<Rightarrow> int \<Rightarrow> backend \<Rightarrow> action_result \<times> backend" where
  "submitVote_insert e pollId user i b =
     (let (failed, b1) = votes_insert e pollId user i b in
      if failed then (ActionResult (Some ''Failed to submit vote. Please try again.''), b1)
      else (ActionResult None, b1))"

definition submitVote :: "env \<Rightarrow> jsstring \<Rightarrow> js_number \<Rightarrow> backend \<Rightarrow> action_result \<times> backend" where
  "submitVote e pollId optionIndex b =
     (if \<not> isValidPollId pollId then (ActionResult (Some ''Invalid poll ID format.''), b)
      else case optionIndex of
        NonInteger \<Rightarrow> (ActionResult (Some ''Invalid option selection.''), b)
      | Integer i \<Rightarrow>
          if i < 0 then (ActionResult (Some ''Invalid option selection.''), b)
          else
            (let (auth, b1) = auth_getUser e b;
                 user = auth_user auth;
                 ((poll, pollError), b2) = polls_select_options e pollId b1 in
             if pollError then (ActionResult (Some ''Poll not found.''), b2)
             else case poll of
               None \<Rightarrow> (ActionResult (Some ''Poll not found.''), b2)
             | Some poll_opts \<Rightarrow>
                 if i \<ge> int (length poll_opts) then
                   (ActionResult (Some ''Invalid option selection.''), b2)
                 else case user of
                   Some uid \<Rightarrow>
                     (let ((existingVote, lookupError), b3) = votes_select e pollId uid b2 in
                      case existingVote of
                        Some v \<Rightarrow> (ActionResult (Some ''You have already voted on this poll.''), b3)
                      | None \<Rightarrow> submitVote_insert e pollId user i b3)
                 | None \<Rightarrow> submitVote_insert e pollId user i b2))"

text \<open>
  \<open>deletePoll\<close> (lines 373 to 406) and \<open>updatePoll\<close> (lines 441 to 484): the
  identifier check comes first; \<open>updatePoll\<close> then reads the form as \<open>createPoll\<close>
  does; both ask for the user and act on the rows with this identifier and this owner.
\<close>

definition deletePoll :: "env \<Rightarrow> jsstring \<Rightarrow> backend \<Rightarrow> action_result \<times> backend" where
  "deletePoll e pid b =
     (if \<not> isValidPollId pid then (ActionResult (Some ''Invalid poll ID format.''), b)
      else
        (let (auth, b1) = auth_getUser e b in
         if auth_error auth then
           (ActionResult (Some ''Authentication error. Please try again.''), b1)
         else case auth_user auth of
           None \<Rightarrow> (ActionResult (Some ''You must be logged in to delete a poll.''), b1)
         | Some uid \<Rightarrow>
            (let (failed, b2) = polls_delete e pid uid b1 in
             if failed then
               (ActionResult (Some ''Failed to delete poll or poll not found.''), b2)
             else (ActionResult None, revalidatePath b2))))"

definition updatePoll ::
  "env \<Rightarrow> jsstring \<Rightarrow> form_data \<Rightarrow> backend \<Rightarrow> (exn + action_result) \<times> backend" where
  "updatePoll e pollId formData b =
     (if \<not> isValidPollId pollId then (Inr (ActionResult (Some ''Invalid poll ID format.'')), b)
      else
     (case sanitizeInput_call (formData_get formData (js ''question'')) of
        Inl x \<Rightarrow> (Inl x, b)
      | Inr question \<Rightarrow>
     (case sanitizeInput_map (filter truthy (formData_getAll formData (js ''options''))) of
        Inl x \<Rightarrow> (Inl x, b)
      | Inr opts \<Rightarrow>
     (case validatePollInput question opts of
        Some validationError \<Rightarrow> (Inr (ActionResult (Some validationError)), b)
      | None \<Rightarrow>
         (let (auth, b1) = auth_getUser e b in
          if auth_error auth then
            (Inr (ActionResult (Some ''Authentication error. Please try again.'')), b1)
          else case auth_user auth of
            None \<Rightarrow> (Inr (ActionResult (Some ''You must be logged in to update a poll.'')), b1)
          | Some uid \<Rightarrow>
             (let (failed, b2) = polls_update e pollId uid question opts b1 in
              if failed then
                (Inr (ActionResult (Some ''Failed to update poll or poll not found.'')), b2)
              else (Inr (ActionResult None), revalidatePath b2)))))))"

section \<open>The handlers of auth-actions.ts\<close>

text \<open>
  The declarations of \<open>LoginFormData\<close> and \<open>RegisterFormData\<close> are in \<open>../types\<close>,
  which is not among the sources; their fields are the ones the handlers read.
\<close>

record login_form_data =
  login_email :: jsstring
  login_password :: jsstring

record register_form_data =
  register_name :: jsstring
  register_email :: jsstring
  register_password :: jsstring

text \<open>
  \<open>login\<close>, \<open>register\<close> and \<open>logout\<close> make one call and return the message of its
  error, or \<open>{error: null}\<close>. \<open>getCurrentUser\<close> returns \<open>data.user\<close> and \<open>getSession\<close>
  returns \<open>data.session\<close>: the value itself or \<open>null\<close>, not wrapped in an object.
\<close>

definition login :: "env \<Rightarrow> login_form_data \<Rightarrow> backend \<Rightarrow> action_result \<times> backend" where
  "login e data b =
     (let (failed, b1) = auth_signInWithPassword e (login_email data) (login_password data) b in
      case failed of
        Some message \<Rightarrow> (ActionResult (Some message), b1)
      | None \<Rightarrow> (ActionResult None, b1))"

definition register :: "env \<Rightarrow> register_form_data \<Rightarrow> backend \<Rightarrow> action_result \<times> backend" where
  "register e data b =
     (let (failed, b1) =
            auth_signUp e (register_email data) (register_password data) (register_name data) b in
      case failed of
        Some message \<Rightarrow> (ActionResult (Some message), b1)
      | None \<Rightarrow> (ActionResult None, b1))"

definition logout :: "env \<Rightarrow> backend \<Rightarrow> action_result \<times> backend" where
  "logout e b =
     (let (failed, b1) = auth_signOut e b in
      case failed of
        Some message \<Rightarrow> (ActionResult (Some message), b1)
      | None \<Rightarrow> (ActionResult None, b1))"

definition getCurrentUser :: "env \<Rightarrow> backend \<Rightarrow> user_id option \<times> backend" where
  "getCurrentUser e b = (let (auth, b1) = auth_getUser e b in (auth_user auth, b1))"

definition getSession :: "env \<Rightarrow> backend \<Rightarrow> session option \<times> backend" where
  "getSession e b = auth_getSession e b"

section \<open>Sequential executions\<close>

text \<open>
  A request names a handler with its arguments; \<open>handle\<close> runs it, and \<open>run\<close> runs a
  sequence of requests one after the other, each in its own environment.
\<close>

datatype request =
    CreatePoll form_data
  | GetUserPolls
  | GetPollById jsstring
  | SubmitVote jsstring js_number
  | DeletePoll jsstring
  | UpdatePoll jsstring form_data
  | Login login_form_data
  | Register register_form_data
  | Logout
  | GetCurrentUser
  | GetSession

text \<open>
  What an invocation returns: one of the three result objects, or the bare value of
  \<open>getCurrentUser\<close> or of \<open>getSession\<close>.
\<close>

datatype response =
    Action action_result | Poll poll_result | Polls polls_result
  | UserValue "user_id option" | SessionValue "session option"

fun handle :: "env \<Rightarrow> request \<Rightarrow> backend \<Rightarrow> (exn + response) \<times> backend" where
  "handle e (CreatePoll fd) b = map_prod (map_sum (\<lambda>x. x) Action) (\<lambda>s. s) (createPoll e fd b)"
| "handle e GetUserPolls b = map_prod (\<lambda>r. Inr (Polls r)) (\<lambda>s. s) (getUserPolls e b)"
| "handle e (GetPollById pid) b = map_prod (\<lambda>r. Inr (Poll r)) (\<lambda>s. s) (getPollById e pid b)"
| "handle e (SubmitVote pid n) b = map_prod (\<lambda>r. Inr (Action r)) (\<lambda>s. s) (submitVote e pid n b)"
| "handle e (DeletePoll pid) b = map_prod (\<lambda>r. Inr (Action r)) (\<lambda>s. s) (deletePoll e pid b)"
| "handle e (UpdatePoll pid fd) b = map_prod (map_sum (\<lambda>x. x) Action) (\<lambda>s. s) (updatePoll e pid fd b)"
| "handle e (Login data) b = map_prod (\<lambda>r. Inr (Action r)) (\<lambda>s. s) (login e data b)"
| "handle e (Register data) b = map_prod (\<lambda>r. Inr (Action r)) (\<lambda>s. s) (register e data b)"
| "handle e Logout b = map_prod (\<lambda>r. Inr (Action r)) (\<lambda>s. s) (logout e b)"
| "handle e GetCurrentUser b = map_prod (\<lambda>r. Inr (UserValue r)) (\<lambda>s. s) (getCurrentUser e b)"
| "handle e GetSession b = map_prod (\<lambda>r. Inr (SessionValue r)) (\<lambda>s. s) (getSession e b)"

fun run :: "(env \<times> request) list \<Rightarrow> backend \<Rightarrow> (exn + response) list \<times> backend" where
  "run [] b = ([], b)"
| "run ((e, r) # rest) b =
     (let (out, b1) = handle e r b; (outs, b2) = run rest b1 in (out # outs, b2))"

text \<open>
  The invariant of section 3: an authenticated user has at most one vote per poll.
\<close>

definition one_vote_per_user :: "vote_row list \<Rightarrow> bool" where
  "one_vote_per_user vs \<longleftrightarrow>
     list_all (\<lambda>v. vote_user_id v \<noteq> None \<longrightarrow>
                 length (filter (\<lambda>w. vote_poll_id w = vote_poll_id v
                                     \<and> vote_user_id w = vote_user_id v) vs) \<le> 1) vs"

text \<open>
  The forms on which the casts of \<open>createPoll\<close> and \<open>updatePoll\<close> are right: a
  question entry that is a string, and only strings among the options.
\<close>

definition form_strings :: "form_data \<Rightarrow> bool" where
  "form_strings fd \<longleftrightarrow>
     (case formData_get fd (js ''question'') of Some (FormString q) \<Rightarrow> True | _ \<Rightarrow> False)
     \<and> list_all (\<lambda>v. v \<noteq> FormFile) (formData_getAll fd (js ''options''))"

text \<open>
  The form without the entries of the field \<open>options\<close> whose value is the empty
  string.
\<close>

definition drop_empty_options :: "form_data \<Rightarrow> form_data" where
  "drop_empty_options fd =
     filter (\<lambda>entry. \<not> (fst entry = js ''options'' \<and> snd entry = FormString [])) fd"

section \<open>Outcomes of an invocation\<close>

text \<open>
  The invocations on which a cast of \<open>createPoll\<close> or \<open>updatePoll\<close> is wrong; the error
  strings each handler has in its \<open>return\<close> statements (for \<open>login\<close>, \<open>register\<close> and
  \<open>logout\<close> the message of the provider's error); the \<open>error\<close> field of a result object,
  which a bare value does not have; and the agreement of payload and error in the results
  of \<open>getPollById\<close> (a poll exactly when there is no error) and of \<open>getUserPolls\<close> (no
  polls with an error).
\<close>

definition validation_messages :: "string list" where
  "validation_messages =
     [''Question must be at least 3 characters long.'',
      ''Please provide at least two options.'',
      ''All options must contain valid text.'',
      ''Question is too long (max 500 characters).'',
      ''Options are too long (max 200 characters each).'']"

fun error_messages :: "env \<Rightarrow> request \<Rightarrow> string list" where
  "error_messages e (CreatePoll fd) =
     validation_messages @
     [''Authentication error. Please try again.'',
      ''You must be logged in to create a poll.'',
      ''Failed to create poll. Please try again.'']"
| "error_messages e GetUserPolls = [''Not authenticated'', ''Failed to fetch polls.'']"
| "error_messages e (GetPollById pid) = [''Invalid poll ID format.'', ''Poll not found.'']"
| "error_messages e (SubmitVote pid n) =
     [''Invalid poll ID format.'', ''Invalid option selection.'', ''Poll not found.'',
      ''You have already voted on this poll.'', ''Failed to submit vote. Please try again.'']"
| "error_messages e (DeletePoll pid) =
     [''Invalid poll ID format.'', ''Authentication error. Please try again.'',
      ''You must be logged in to delete a poll.'',
      ''Failed to delete poll or poll not found.'']"
| "error_messages e (UpdatePoll pid fd) =
     ''Invalid poll ID format.'' # validation_messages @
     [''Authentication error. Please try again.'',
      ''You must be logged in to update a poll.'',
      ''Failed to update poll or poll not found.'']"
| "error_messages e (Login data) = (case env_sign_in_error e of Some m \<Rightarrow> [m] | None \<Rightarrow> [])"
| "error_messages e (Register data) = (case env_sign_up_error e of Some m \<Rightarrow> [m] | None \<Rightarrow> [])"
| "error_messages e Logout = (case env_sign_out_error e of Some m \<Rightarrow> [m] | None \<Rightarrow> [])"
| "error_messages e GetCurrentUser = []"
| "error_messages e GetSession = []"

fun cast_fails :: "request \<Rightarrow> bool" where
  "cast_fails (CreatePoll fd) \<longleftrightarrow> \<not> form_strings fd"
| "cast_fails (UpdatePoll pid fd) \<longleftrightarrow> isValidPollId pid \<and> \<not> form_strings fd"
| "cast_fails _ \<longleftrightarrow> False"

fun result_error :: "response \<Rightarrow> string option option" where
  "result_error (Action r) = Some (error r)"
| "result_error (Poll r) = Some (poll_error r)"
| "result_error (Polls r) = Some (polls_error r)"
| "result_error (UserValue u) = None"
| "result_error (SessionValue s) = None"

fun payload_agrees :: "response \<Rightarrow> bool" where
  "payload_agrees (Poll r) \<longleftrightarrow> (poll r = None) = (poll_error r \<noteq> None)"
| "payload_agrees (Polls r) \<longleftrightarrow> (polls_error r \<noteq> None \<longrightarrow> polls r = [])"
| "payload_agrees _ \<longleftrightarrow> True"

section \<open>Example data\<close>

text \<open>
  A small store for the concrete instances below: Alice owns a poll with the options
  Red and Blue, and Bob has voted for Red.
\<close>

definition alice :: user_id where
  "alice = js ''alice''"

definition bob :: user_id where
  "bob = js ''bob''"

definition poll1_id :: jsstring where
  "poll1_id = js ''123e4567-e89b-12d3-a456-426614174000''"

definition poll2_id :: jsstring where
  "poll2_id = js ''9B2F0C1A-0000-4000-8000-00000000abcd''"

definition poll1 :: poll_row where
  "poll1 = \<lparr>poll_id = poll1_id, poll_user_id = alice,
            poll_question = js ''What is your favorite color?'',
            poll_options = [js ''Red'', js ''Blue''], poll_created_at = 1\<rparr>"

definition bobs_vote :: vote_row where
  "bobs_vote = \<lparr>vote_poll_id = poll1_id, vote_user_id = Some bob, vote_option_index = 0\<rparr>"

definition store1 :: backend where
  "store1 = \<lparr>polls_table = [poll1], votes_table = [bobs_vote], calls = []\<rparr>"

definition env1 :: "auth_response \<Rightarrow> env" where
  "env1 a = \<lparr>env_auth = a, env_failing = {}, env_new_id = poll2_id, env_now = 2,
             env_sign_in_error = None, env_sign_up_error = None, env_sign_out_error = None,
             env_session = None\<rparr>"

definition color_form :: form_data where
  "color_form =
     [(js ''question'', FormString (js ''What is your favorite color?'')),
      (js ''options'', FormString (js ''Red'')),
      (js ''options'', FormString (js ''Blue''))]"

definition options_form :: "jsstring list \<Rightarrow> form_data" where
  "options_form opts =
     (js ''question'', FormString (js ''What is your favorite color?''))
       # map (\<lambda>opt. (js ''options'', FormString opt)) opts"

definition no_question_form :: form_data where
  "no_question_form =
     [(js ''options'', FormString (js ''Red'')), (js ''options'', FormString (js ''Blue''))]"

section \<open>Properties of the sanitizer and the validator\<close>

lemma rev_dropWhile_takeWhile:
  "rev (dropWhile P (rev d)) @ rev (takeWhile P (rev d)) = d"
proof -
  have "rev (dropWhile P (rev d)) @ rev (takeWhile P (rev d))
          = rev (takeWhile P (rev d) @ dropWhile P (rev d))"
    by (simp only: rev_append)
  also have "\<dots> = d"
    by (simp only: takeWhile_dropWhile_id rev_rev_ident)
  finally show ?thesis .
qed

lemma trim_decompose:
  "\<exists>pre suf. s = pre @ trim s @ suf
     \<and> (\<forall>c \<in> set pre. isWhiteSpace c) \<and> (\<forall>c \<in> set suf. isWhiteSpace c)"
proof (intro exI conjI)
  let ?d = "dropWhile isWhiteSpace s"
  show "s = takeWhile isWhiteSpace s @ trim s @ rev (takeWhile isWhiteSpace (rev ?d))"
    unfolding trim_def by (simp only: rev_dropWhile_takeWhile takeWhile_dropWhile_id)
  show "\<forall>c \<in> set (takeWhile isWhiteSpace s). isWhiteSpace c"
    by (auto dest: set_takeWhileD)
  show "\<forall>c \<in> set (rev (takeWhile isWhiteSpace (rev ?d))). isWhiteSpace c"
    by (auto dest: set_takeWhileD)
qed

lemma all_dropWhile_iff:
  "(\<forall>x \<in> set (dropWhile P xs). P x) \<longleftrightarrow> (\<forall>x \<in> set xs. P x)"
  by (induction xs) auto

lemma trim_eq_Nil_iff: "trim s = [] \<longleftrightarrow> (\<forall>c \<in> set s. isWhiteSpace c)"
  by (simp add: trim_def all_dropWhile_iff)

lemma trim_ends:
  "trim s = [] \<or> (\<not> isWhiteSpace (hd (trim s)) \<and> \<not> isWhiteSpace (last (trim s)))"
proof (cases "trim s = []")
  case True
  then show ?thesis by simp
next
  case False
  let ?d = "dropWhile isWhiteSpace s"
  let ?r = "dropWhile isWhiteSpace (rev ?d)"
  have t: "trim s = rev ?r"
    by (simp add: trim_def)
  from False t have r: "?r \<noteq> []"
    by (metis rev_is_Nil_conv)
  then have d: "?d \<noteq> []"
    by (metis dropWhile.simps(1) rev.simps(1))
  have "\<not> isWhiteSpace (hd ?r)"
    using r by (rule hd_dropWhile)
  then have l: "\<not> isWhiteSpace (last (trim s))"
    unfolding t by (simp add: last_rev)
  have hd_d: "\<not> isWhiteSpace (hd ?d)"
    using d by (rule hd_dropWhile)
  have "hd ?d \<in> set (rev ?d)"
    using d by (metis hd_in_set set_rev)
  then have "last ?r = last (rev ?d)"
    using hd_d by (rule dropWhile_last)
  then have "hd (trim s) = hd ?d"
    unfolding t by (simp add: hd_rev last_rev)
  with hd_d l show ?thesis
    by simp
qed

text \<open>
  Claim C9. For every string \<open>s\<close>, \<open>sanitizeInput s\<close> is \<open>s\<close> with its leading and
  trailing whitespace removed (\<open>s\<close> splits into a whitespace prefix, a core that neither
  starts nor ends with whitespace, and a whitespace suffix) and then every occurrence of
  \<open><\<close>, \<open>>\<close>, \<open>"\<close>, \<open>'\<close> and \<open>&\<close> deleted from the core. The result contains none
  of the five characters. The function is a total function of its argument alone.
\<close>

theorem sanitizeInput_trims_and_strips:
  "\<exists>pre core suf.
      s = pre @ core @ suf
    \<and> (\<forall>c \<in> set pre. isWhiteSpace c) \<and> (\<forall>c \<in> set suf. isWhiteSpace c)
    \<and> (core = [] \<or> (\<not> isWhiteSpace (hd core) \<and> \<not> isWhiteSpace (last core)))
    \<and> sanitizeInput s = filter (\<lambda>c. c \<notin> {0x3C, 0x3E, 0x22, 0x27, 0x26}) core
    \<and> set (sanitizeInput s) \<inter> {0x3C, 0x3E, 0x22, 0x27, 0x26} = {}"
proof -
  obtain pre suf where split: "s = pre @ trim s @ suf"
    and ws: "\<forall>c \<in> set pre. isWhiteSpace c" "\<forall>c \<in> set suf. isWhiteSpace c"
    using trim_decompose by blast
  have san: "sanitizeInput s = filter (\<lambda>c. c \<notin> {0x3C, 0x3E, 0x22, 0x27, 0x26}) (trim s)"
    by (simp add: sanitizeInput_def dangerous_def)
  have none: "set (sanitizeInput s) \<inter> {0x3C, 0x3E, 0x22, 0x27, 0x26} = {}"
    unfolding san by auto
  show ?thesis
  proof (intro exI conjI)
    show "s = pre @ trim s @ suf"
      by (rule split)
    show "\<forall>c \<in> set pre. isWhiteSpace c" "\<forall>c \<in> set suf. isWhiteSpace c"
      by (rule ws)+
    show "trim s = [] \<or> (\<not> isWhiteSpace (hd (trim s)) \<and> \<not> isWhiteSpace (last (trim s)))"
      by (rule trim_ends)
    show "sanitizeInput s = filter (\<lambda>c. c \<notin> {0x3C, 0x3E, 0x22, 0x27, 0x26}) (trim s)"
      by (rule san)
    show "set (sanitizeInput s) \<inter> {0x3C, 0x3E, 0x22, 0x27, 0x26} = {}"
      by (rule none)
  qed
qed

text \<open>
  The specification's example: the sanitizer applied to \<open><script>'a'&"b">\<close> yields
  \<open>scriptab\<close>.
\<close>

theorem sanitizeInput_trims_and_strips_witness:
  "(\<exists>pre core suf.
      js ''<script>'' @ [0x27] @ js ''a'' @ [0x27] @ js ''&'' @ [0x22] @ js ''b'' @ [0x22] @ js ''>''
        = pre @ core @ suf
    \<and> (\<forall>c \<in> set pre. isWhiteSpace c) \<and> (\<forall>c \<in> set suf. isWhiteSpace c)
    \<and> (core = [] \<or> (\<not> isWhiteSpace (hd core) \<and> \<not> isWhiteSpace (last core)))
    \<and> js ''scriptab'' = filter (\<lambda>c. c \<notin> {0x3C, 0x3E, 0x22, 0x27, 0x26}) core
    \<and> set (js ''scriptab'') \<inter> {0x3C, 0x3E, 0x22, 0x27, 0x26} = {})"
proof -
  let ?s = "js ''<script>'' @ [0x27] @ js ''a'' @ [0x27] @ js ''&'' @ [0x22] @ js ''b'' @ [0x22] @ js ''>''"
  have e: "sanitizeInput ?s = js ''scriptab''"
    by (simp add: sanitizeInput_def dangerous_def trim_def isWhiteSpace_def js_def)
  show ?thesis
    using sanitizeInput_trims_and_strips [of ?s] unfolding e .
qed

text \<open>
  Claim C4. \<open>validatePollInput\<close> returns the message of the first failing check in the
  order (1) short question, (2) fewer than two options, (3) empty option, (4) long
  question, (5) long option; it returns \<open>null\<close> exactly when all five conditions hold;
  and an option list shorter than two is always rejected.
\<close>

theorem validatePollInput_first_failing_check:
  "validatePollInput q opts = validate_spec q opts
   \<and> (validatePollInput q opts = None \<longleftrightarrow>
        3 \<le> length (trim q) \<and> 2 \<le> length opts \<and> (\<forall>opt \<in> set opts. trim opt \<noteq> [])
        \<and> length q \<le> 500 \<and> (\<forall>opt \<in> set opts. length opt \<le> 200))
   \<and> (length opts < 2 \<longrightarrow> validatePollInput q opts \<noteq> None)"
proof -
  have "q = [] \<Longrightarrow> trim q = []"
    by (simp add: trim_def)
  then have q: "(q = [] \<or> length (trim q) < 3) \<longleftrightarrow> \<not> 3 \<le> length (trim q)"
    by auto
  have "\<And>opt. (opt = [] \<or> length (trim opt) = 0) \<longleftrightarrow> trim opt = []"
    by (auto simp: trim_def)
  then have o: "list_ex (\<lambda>opt. opt = [] \<or> length (trim opt) = 0) opts \<longleftrightarrow> (\<exists>opt \<in> set opts. trim opt = [])"
    by (simp add: list_ex_iff)
  have l: "list_ex (\<lambda>opt. length opt > 200) opts \<longleftrightarrow> (\<exists>opt \<in> set opts. \<not> length opt \<le> 200)"
    by (simp add: list_ex_iff not_le)
  have eq: "validatePollInput q opts = validate_spec q opts"
    unfolding validatePollInput_def validate_spec_def q o l by auto
  have none: "validate_spec q opts = None \<longleftrightarrow>
        3 \<le> length (trim q) \<and> 2 \<le> length opts \<and> (\<forall>opt \<in> set opts. trim opt \<noteq> [])
        \<and> length q \<le> 500 \<and> (\<forall>opt \<in> set opts. length opt \<le> 200)"
    unfolding validate_spec_def by auto
  have short: "length opts < 2 \<longrightarrow> validate_spec q opts \<noteq> None"
    unfolding validate_spec_def by auto
  show ?thesis
    using eq none short by simp
qed

theorem validatePollInput_first_failing_check_witness:
  "validatePollInput (js ''What is your favorite color?'') [js ''Red'']
     = Some ''Please provide at least two options.''
   \<and> validatePollInput (js ''What is your favorite color?'') [js ''Red''] \<noteq> None
   \<and> length [js ''Red''] < 2"
proof -
  have "validate_spec (js ''What is your favorite color?'') [js ''Red'']
          = Some ''Please provide at least two options.''"
    by (simp add: validate_spec_def trim_def isWhiteSpace_def js_def)
  then show ?thesis
    using validatePollInput_first_failing_check [of "js ''What is your favorite color?''" "[js ''Red'']"]
    by simp
qed

section \<open>Facts about the example data\<close>

lemma abc_not_valid: "\<not> isValidPollId (js ''abc'')"
  by code_simp

lemma poll1_id_valid: "isValidPollId poll1_id"
  by code_simp

lemma poll2_id_valid: "isValidPollId poll2_id"
  by code_simp

lemma store1_poll1: "filter (\<lambda>p. poll_id p = poll1_id) (polls_table store1) = [poll1]"
  by (simp add: store1_def poll1_def)

section \<open>Identifier and option checks\<close>

text \<open>
  Claim C6. When the identifier does not have the shape of five groups of 8, 4, 4, 4 and
  12 hexadecimal digits, \<open>getPollById\<close>, \<open>submitVote\<close>, \<open>deletePoll\<close> and
  \<open>updatePoll\<close> each return the error "Invalid poll ID format." (\<open>getPollById\<close> with
  \<open>poll: null\<close>) and return the store as they found it: the tables are unchanged and
  no call to the backend has been recorded.
\<close>

theorem invalid_poll_id_rejected:
  assumes "\<not> isValidPollId pid"
  shows "getPollById e pid b = (PollResult None (Some ''Invalid poll ID format.''), b)
       \<and> submitVote e pid n b = (ActionResult (Some ''Invalid poll ID format.''), b)
       \<and> deletePoll e pid b = (ActionResult (Some ''Invalid poll ID format.''), b)
       \<and> updatePoll e pid fd b = (Inr (ActionResult (Some ''Invalid poll ID format.'')), b)"
  using assms by (simp add: getPollById_def submitVote_def deletePoll_def updatePoll_def)

theorem invalid_poll_id_rejected_witness:
  "\<not> isValidPollId (js ''abc'')
   \<and> getPollById (env1 NoUser) (js ''abc'') store1
        = (PollResult None (Some ''Invalid poll ID format.''), store1)
   \<and> submitVote (env1 NoUser) (js ''abc'') (Integer 0) store1
        = (ActionResult (Some ''Invalid poll ID format.''), store1)
   \<and> deletePoll (env1 NoUser) (js ''abc'') store1
        = (ActionResult (Some ''Invalid poll ID format.''), store1)
   \<and> updatePoll (env1 NoUser) (js ''abc'') color_form store1
        = (Inr (ActionResult (Some ''Invalid poll ID format.'')), store1)"
  using abc_not_valid
    invalid_poll_id_rejected [OF abc_not_valid, of "env1 NoUser" store1 "Integer 0" color_form]
  by simp

lemma submitVote_not_natural:
  assumes "isValidPollId pid"
    and "optionIndex = NonInteger \<or> (\<exists>i. optionIndex = Integer i \<and> i < 0)"
  shows "submitVote e pid optionIndex b = (ActionResult (Some ''Invalid option selection.''), b)"
  using assms by (auto simp: submitVote_def)

lemma submitVote_too_large:
  assumes "isValidPollId pid"
    and "filter (\<lambda>p. poll_id p = pid) (polls_table b) = [P]"
    and "PollsSelectOptions \<notin> env_failing e"
    and "int (length (poll_options P)) \<le> i"
  shows "submitVote e pid (Integer i) b
          = (ActionResult (Some ''Invalid option selection.''),
             b\<lparr>calls := calls b @ [AuthGetUser, PollsSelectOptions]\<rparr>)"
proof -
  from assms(4) have "0 \<le> i"
    by simp
  with assms show ?thesis
    by (simp add: submitVote_def auth_getUser_def polls_select_options_def record_call_def
        single_row_def)
qed

text \<open>
  Claim C5. For a poll identifier of the right shape: an \<open>optionIndex\<close> that is not a
  non-negative integer is answered with "Invalid option selection." and the store is
  returned as it was, no backend call made. When the poll exists with \<open>n\<close> options,
  the backend serves the fetch of its options and \<open>optionIndex \<ge> n\<close>, the answer is the
  same error after the calls \<open>getUser\<close> and the fetch; both tables are unchanged, so no
  vote is inserted.
\<close>

theorem submitVote_invalid_option:
  assumes "isValidPollId pid"
  shows "(optionIndex = NonInteger \<or> (\<exists>i. optionIndex = Integer i \<and> i < 0) \<longrightarrow>
            submitVote e pid optionIndex b
              = (ActionResult (Some ''Invalid option selection.''), b))
       \<and> (filter (\<lambda>p. poll_id p = pid) (polls_table b) = [P]
            \<and> PollsSelectOptions \<notin> env_failing e
            \<and> int (length (poll_options P)) \<le> i \<longrightarrow>
            submitVote e pid (Integer i) b
              = (ActionResult (Some ''Invalid option selection.''),
                 b\<lparr>calls := calls b @ [AuthGetUser, PollsSelectOptions]\<rparr>))"
  using assms submitVote_not_natural [of pid optionIndex e b] submitVote_too_large [of pid b P e i]
  by blast

text \<open>The specification's example: index 5 against the poll with two options.\<close>

theorem submitVote_invalid_option_witness:
  "isValidPollId poll1_id
   \<and> length (poll_options poll1) = 2
   \<and> submitVote (env1 (User bob)) poll1_id (Integer (- 1)) store1
       = (ActionResult (Some ''Invalid option selection.''), store1)
   \<and> submitVote (env1 (User bob)) poll1_id (Integer 5) store1
       = (ActionResult (Some ''Invalid option selection.''),
          store1\<lparr>calls := calls store1 @ [AuthGetUser, PollsSelectOptions]\<rparr>)"
  using poll1_id_valid store1_poll1
    submitVote_invalid_option [OF poll1_id_valid, of "Integer (- 1)" "env1 (User bob)" store1 poll1 5]
  by (simp add: env1_def poll1_def)

section \<open>Anonymous votes\<close>

lemma submitVote_anonymous_no_lookup:
  assumes "auth_user (env_auth e) = None"
  shows "\<exists>cs. calls (snd (submitVote e pid n b)) = calls b @ cs \<and> VotesSelect \<notin> set cs"
  using assms
  by (auto simp: submitVote_def submitVote_insert_def auth_getUser_def polls_select_options_def
      votes_insert_def record_call_def Let_def split: js_number.splits option.splits)

lemma submitVote_anonymous_inserts:
  assumes "auth_user (env_auth e) = None" "isValidPollId pid"
    and "filter (\<lambda>p. poll_id p = pid) (polls_table b) = [P]"
    and "0 \<le> i" "i < int (length (poll_options P))"
    and "PollsSelectOptions \<notin> env_failing e" "VotesInsert \<notin> env_failing e"
  shows "submitVote e pid (Integer i) b
          = (ActionResult None,
             b\<lparr>votes_table := votes_table b @
                  [\<lparr>vote_poll_id = pid, vote_user_id = None, vote_option_index = i\<rparr>],
               calls := calls b @ [AuthGetUser, PollsSelectOptions, VotesInsert]\<rparr>)"
  using assms
  by (simp add: submitVote_def submitVote_insert_def auth_getUser_def polls_select_options_def
      votes_insert_def record_call_def single_row_def)

lemma anonymous_votes_all_succeed:
  assumes "isValidPollId pid"
    and "filter (\<lambda>p. poll_id p = pid) (polls_table b) = [P]"
    and "\<forall>ei \<in> set eis. auth_user (env_auth (fst ei)) = None
            \<and> 0 \<le> snd ei \<and> snd ei < int (length (poll_options P))
            \<and> PollsSelectOptions \<notin> env_failing (fst ei) \<and> VotesInsert \<notin> env_failing (fst ei)"
  shows "fst (run (map (\<lambda>ei. (fst ei, SubmitVote pid (Integer (snd ei)))) eis) b)
           = map (\<lambda>ei. Inr (Action (ActionResult None))) eis
       \<and> votes_table (snd (run (map (\<lambda>ei. (fst ei, SubmitVote pid (Integer (snd ei)))) eis) b))
           = votes_table b @
             map (\<lambda>ei. \<lparr>vote_poll_id = pid, vote_user_id = None, vote_option_index = snd ei\<rparr>) eis
       \<and> polls_table (snd (run (map (\<lambda>ei. (fst ei, SubmitVote pid (Integer (snd ei)))) eis) b))
           = polls_table b"
  using assms(2,3)
proof (induction eis arbitrary: b)
  case Nil
  then show ?case by simp
next
  case (Cons ei eis)
  let ?b1 = "b\<lparr>votes_table := votes_table b @
                  [\<lparr>vote_poll_id = pid, vote_user_id = None, vote_option_index = snd ei\<rparr>],
               calls := calls b @ [AuthGetUser, PollsSelectOptions, VotesInsert]\<rparr>"
  have step: "submitVote (fst ei) pid (Integer (snd ei)) b = (ActionResult None, ?b1)"
    using Cons.prems assms(1) by (intro submitVote_anonymous_inserts) auto
  have "filter (\<lambda>p. poll_id p = pid) (polls_table ?b1) = [P]"
    using Cons.prems(1) by simp
  moreover have "\<forall>ei \<in> set eis. auth_user (env_auth (fst ei)) = None
            \<and> 0 \<le> snd ei \<and> snd ei < int (length (poll_options P))
            \<and> PollsSelectOptions \<notin> env_failing (fst ei) \<and> VotesInsert \<notin> env_failing (fst ei)"
    using Cons.prems(2) by simp
  ultimately have IH:
    "fst (run (map (\<lambda>ei. (fst ei, SubmitVote pid (Integer (snd ei)))) eis) ?b1)
           = map (\<lambda>ei. Inr (Action (ActionResult None))) eis
       \<and> votes_table (snd (run (map (\<lambda>ei. (fst ei, SubmitVote pid (Integer (snd ei)))) eis) ?b1))
           = votes_table ?b1 @
             map (\<lambda>ei. \<lparr>vote_poll_id = pid, vote_user_id = None, vote_option_index = snd ei\<rparr>) eis
       \<and> polls_table (snd (run (map (\<lambda>ei. (fst ei, SubmitVote pid (Integer (snd ei)))) eis) ?b1))
           = polls_table ?b1"
    by (rule Cons.IH)
  show ?case
    using IH by (simp add: step case_prod_beta)
qed

text \<open>
  Claim C7. For a caller without a user (\<open>getUser\<close> answers with no user),
  \<open>submitVote\<close> never makes the duplicate-vote lookup. When the identifier has the right
  shape, the poll exists, the index is within its options and the backend serves the
  fetch and the insert, it appends a vote with a null user id and returns
  \<open>{error: null}\<close>. Any sequence of such anonymous votes on the same poll succeeds
  throughout, each adding its vote.
\<close>

theorem submitVote_anonymous:
  "(auth_user (env_auth e) = None \<longrightarrow>
      (\<exists>cs. calls (snd (submitVote e pid n b)) = calls b @ cs \<and> VotesSelect \<notin> set cs))
   \<and> (auth_user (env_auth e) = None \<and> isValidPollId pid
        \<and> filter (\<lambda>p. poll_id p = pid) (polls_table b) = [P]
        \<and> 0 \<le> i \<and> i < int (length (poll_options P))
        \<and> PollsSelectOptions \<notin> env_failing e \<and> VotesInsert \<notin> env_failing e \<longrightarrow>
      submitVote e pid (Integer i) b
        = (ActionResult None,
           b\<lparr>votes_table := votes_table b @
                [\<lparr>vote_poll_id = pid, vote_user_id = None, vote_option_index = i\<rparr>],
             calls := calls b @ [AuthGetUser, PollsSelectOptions, VotesInsert]\<rparr>))
   \<and> (isValidPollId pid
        \<and> filter (\<lambda>p. poll_id p = pid) (polls_table b) = [P]
        \<and> (\<forall>ei \<in> set eis. auth_user (env_auth (fst ei)) = None
              \<and> 0 \<le> snd ei \<and> snd ei < int (length (poll_options P))
              \<and> PollsSelectOptions \<notin> env_failing (fst ei)
              \<and> VotesInsert \<notin> env_failing (fst ei)) \<longrightarrow>
      fst (run (map (\<lambda>ei. (fst ei, SubmitVote pid (Integer (snd ei)))) eis) b)
        = map (\<lambda>ei. Inr (Action (ActionResult None))) eis
      \<and> votes_table (snd (run (map (\<lambda>ei. (fst ei, SubmitVote pid (Integer (snd ei)))) eis) b))
        = votes_table b @
          map (\<lambda>ei. \<lparr>vote_poll_id = pid, vote_user_id = None, vote_option_index = snd ei\<rparr>) eis)"
  using submitVote_anonymous_no_lookup [of e pid n b]
    submitVote_anonymous_inserts [of e pid b P i]
    anonymous_votes_all_succeed [of pid b P eis]
  by blast

theorem submitVote_anonymous_witness:
  "auth_user (env_auth (env1 NoUser)) = None
   \<and> auth_user (env_auth (env1 AuthFailure)) = None
   \<and> isValidPollId poll1_id
   \<and> (\<exists>cs. calls (snd (submitVote (env1 NoUser) poll1_id (Integer 0) store1)) = calls store1 @ cs
          \<and> VotesSelect \<notin> set cs)
   \<and> submitVote (env1 NoUser) poll1_id (Integer 0) store1
       = (ActionResult None,
          store1\<lparr>votes_table := votes_table store1 @
                   [\<lparr>vote_poll_id = poll1_id, vote_user_id = None, vote_option_index = 0\<rparr>],
                 calls := calls store1 @ [AuthGetUser, PollsSelectOptions, VotesInsert]\<rparr>)
   \<and> fst (run [(env1 NoUser, SubmitVote poll1_id (Integer 0)),
               (env1 AuthFailure, SubmitVote poll1_id (Integer 1)),
               (env1 NoUser, SubmitVote poll1_id (Integer 0))] store1)
       = [Inr (Action (ActionResult None)), Inr (Action (ActionResult None)),
          Inr (Action (ActionResult None))]
   \<and> votes_table (snd (run [(env1 NoUser, SubmitVote poll1_id (Integer 0)),
                            (env1 AuthFailure, SubmitVote poll1_id (Integer 1)),
                            (env1 NoUser, SubmitVote poll1_id (Integer 0))] store1))
       = votes_table store1 @
         [\<lparr>vote_poll_id = poll1_id, vote_user_id = None, vote_option_index = 0\<rparr>,
          \<lparr>vote_poll_id = poll1_id, vote_user_id = None, vote_option_index = 1\<rparr>,
          \<lparr>vote_poll_id = poll1_id, vote_user_id = None, vote_option_index = 0\<rparr>]"
proof -
  have opts: "length (poll_options poll1) = 2"
    by (simp add: poll1_def)
  have envs: "auth_user (env_auth (env1 NoUser)) = None"
    "auth_user (env_auth (env1 AuthFailure)) = None"
    "env_failing (env1 NoUser) = {}" "env_failing (env1 AuthFailure) = {}"
    by (simp_all add: env1_def)
  show ?thesis
    using poll1_id_valid store1_poll1 opts envs
      submitVote_anonymous [of "env1 NoUser" poll1_id "Integer 0" store1 poll1 0
        "[(env1 NoUser, 0), (env1 AuthFailure, 1), (env1 NoUser, 0)]"]
    by (simp del: run.simps)
qed

section \<open>Creating and reading back a poll\<close>

lemma sanitize_color_question:
  "sanitizeInput (js ''What is your favorite color?'') = js ''What is your favorite color?''"
  by code_simp

lemma sanitize_red_blue:
  "sanitizeInput (js ''Red'') = js ''Red''" "sanitizeInput (js ''Blue'') = js ''Blue''"
  by code_simp+

lemma createPoll_success:
  assumes "sanitizeInput_call (formData_get fd (js ''question'')) = Inr question"
    and "sanitizeInput_map (filter truthy (formData_getAll fd (js ''options''))) = Inr opts"
    and "validatePollInput question opts = None"
    and "createPoll e fd b = (Inr (ActionResult None), b')"
  shows "\<exists>uid. env_auth e = User uid \<and> PollsInsert \<notin> env_failing e
           \<and> b' = b\<lparr>polls_table := polls_table b @
                       [\<lparr>poll_id = env_new_id e, poll_user_id = uid, poll_question = question,
                         poll_options = opts, poll_created_at = env_now e\<rparr>],
                     calls := calls b @ [AuthGetUser, PollsInsert, RevalidatePath]\<rparr>"
  using assms(4)
  by (cases "env_auth e")
    (auto simp: createPoll_def assms(1,2,3) auth_getUser_def polls_insert_def record_call_def
      revalidatePath_def split: if_splits)

lemma getPollById_fresh:
  assumes "isValidPollId (poll_id p)" "poll_id p \<notin> poll_id ` set (polls_table b)"
    and "PollsSelectById \<notin> env_failing e"
  shows "getPollById e (poll_id p) (b\<lparr>polls_table := polls_table b @ [p], calls := cs\<rparr>)
           = (PollResult (Some p) None,
              b\<lparr>polls_table := polls_table b @ [p], calls := cs @ [PollsSelectById]\<rparr>)"
proof -
  have "filter (\<lambda>r. poll_id r = poll_id p) (polls_table b) = []"
    using assms(2) by (force simp: filter_empty_conv image_iff)
  then show ?thesis
    using assms(1,3)
    by (simp add: getPollById_def polls_select_by_id_def single_row_def record_call_def)
qed

lemma createPoll_succeeded:
  assumes "createPoll e fd b = (Inr (ActionResult None), b')"
  shows "\<exists>question opts uid.
           sanitizeInput_call (formData_get fd (js ''question'')) = Inr question
         \<and> sanitizeInput_map (filter truthy (formData_getAll fd (js ''options''))) = Inr opts
         \<and> validatePollInput question opts = None
         \<and> env_auth e = User uid \<and> PollsInsert \<notin> env_failing e
         \<and> b' = b\<lparr>polls_table := polls_table b @
                       [\<lparr>poll_id = env_new_id e, poll_user_id = uid, poll_question = question,
                         poll_options = opts, poll_created_at = env_now e\<rparr>],
                     calls := calls b @ [AuthGetUser, PollsInsert, RevalidatePath]\<rparr>"
proof (cases "sanitizeInput_call (formData_get fd (js ''question''))")
  case (Inl x)
  with assms show ?thesis
    by (simp add: createPoll_def)
next
  case q: (Inr question)
  show ?thesis
  proof (cases "sanitizeInput_map (filter truthy (formData_getAll fd (js ''options'')))")
    case (Inl x)
    with assms q show ?thesis
      by (simp add: createPoll_def)
  next
    case o: (Inr opts)
    show ?thesis
    proof (cases "validatePollInput question opts")
      case (Some m)
      with assms q o show ?thesis
        by (simp add: createPoll_def)
    next
      case None
      from createPoll_success [OF q o None assms] obtain uid where
        "env_auth e = User uid \<and> PollsInsert \<notin> env_failing e
           \<and> b' = b\<lparr>polls_table := polls_table b @
                       [\<lparr>poll_id = env_new_id e, poll_user_id = uid, poll_question = question,
                         poll_options = opts, poll_created_at = env_now e\<rparr>],
                     calls := calls b @ [AuthGetUser, PollsInsert, RevalidatePath]\<rparr>"
        by (elim exE)
      with q o None show ?thesis
        by (intro exI [of _ question] exI [of _ opts] exI [of _ uid] conjI) simp_all
    qed
  qed
qed

text \<open>
  Claim C8. When \<open>createPoll\<close> succeeds, the store has exactly one new poll row: it
  carries the identifier and the timestamp the store assigned, the caller as owner, and as
  question and options the sanitized question and the sanitized non-empty options of the
  form. \<open>getPollById\<close> on that identifier (of the right shape, carried by no older row,
  the backend serving the query) returns this very row with no error. For the question
  "What is your favorite color?" and the options Red and Blue the sanitizer changes
  nothing, so the poll read back has exactly this question and these options.
\<close>

theorem createPoll_getPollById_roundtrip:
  assumes "createPoll e fd b = (Inr (ActionResult None), b')"
    and "isValidPollId (env_new_id e)" "env_new_id e \<notin> poll_id ` set (polls_table b)"
    and "PollsSelectById \<notin> env_failing e'"
  shows "\<exists>p. polls_table b' = polls_table b @ [p]
           \<and> poll_id p = env_new_id e
           \<and> env_auth e = User (poll_user_id p)
           \<and> poll_created_at p = env_now e
           \<and> sanitizeInput_call (formData_get fd (js ''question'')) = Inr (poll_question p)
           \<and> sanitizeInput_map (filter truthy (formData_getAll fd (js ''options'')))
                = Inr (poll_options p)
           \<and> getPollById e' (env_new_id e) b'
                = (PollResult (Some p) None, b'\<lparr>calls := calls b' @ [PollsSelectById]\<rparr>)
           \<and> (formData_get fd (js ''question'')
                  = Some (FormString (js ''What is your favorite color?''))
                \<and> formData_getAll fd (js ''options'')
                  = [FormString (js ''Red''), FormString (js ''Blue'')] \<longrightarrow>
              poll_question p = js ''What is your favorite color?''
              \<and> poll_options p = [js ''Red'', js ''Blue''])"
proof -
  from createPoll_succeeded [OF assms(1)] obtain question opts uid where
    q: "sanitizeInput_call (formData_get fd (js ''question'')) = Inr question"
    and o: "sanitizeInput_map (filter truthy (formData_getAll fd (js ''options''))) = Inr opts"
    and u: "env_auth e = User uid"
    and b': "b' = b\<lparr>polls_table := polls_table b @
                       [\<lparr>poll_id = env_new_id e, poll_user_id = uid, poll_question = question,
                         poll_options = opts, poll_created_at = env_now e\<rparr>],
                     calls := calls b @ [AuthGetUser, PollsInsert, RevalidatePath]\<rparr>"
    by auto
  let ?p = "\<lparr>poll_id = env_new_id e, poll_user_id = uid, poll_question = question,
             poll_options = opts, poll_created_at = env_now e\<rparr>"
  have "getPollById e' (poll_id ?p) (b\<lparr>polls_table := polls_table b @ [?p],
            calls := calls b @ [AuthGetUser, PollsInsert, RevalidatePath]\<rparr>)
           = (PollResult (Some ?p) None,
              b\<lparr>polls_table := polls_table b @ [?p],
                calls := (calls b @ [AuthGetUser, PollsInsert, RevalidatePath]) @ [PollsSelectById]\<rparr>)"
    using assms(2,3,4) by (intro getPollById_fresh) simp_all
  then have g: "getPollById e' (env_new_id e) b'
                = (PollResult (Some ?p) None, b'\<lparr>calls := calls b' @ [PollsSelectById]\<rparr>)"
    unfolding b' by simp
  have lit: "formData_get fd (js ''question'')
                  = Some (FormString (js ''What is your favorite color?''))
                \<and> formData_getAll fd (js ''options'')
                  = [FormString (js ''Red''), FormString (js ''Blue'')] \<longrightarrow>
              question = js ''What is your favorite color?'' \<and> opts = [js ''Red'', js ''Blue'']"
  proof
    assume a: "formData_get fd (js ''question'')
                  = Some (FormString (js ''What is your favorite color?''))
                \<and> formData_getAll fd (js ''options'')
                  = [FormString (js ''Red''), FormString (js ''Blue'')]"
    have "truthy (FormString (js ''Red''))" "truthy (FormString (js ''Blue''))"
      by (simp_all add: js_def)
    with a q o show "question = js ''What is your favorite color?'' \<and> opts = [js ''Red'', js ''Blue'']"
      by (simp add: sanitize_color_question sanitize_red_blue)
  qed
  have "polls_table b' = polls_table b @ [?p]"
    by (simp add: b')
  with q o u g lit show ?thesis
    by (intro exI [of _ ?p]) simp
qed

lemma color_form_fields:
  "formData_get color_form (js ''question'')
     = Some (FormString (js ''What is your favorite color?''))"
  "formData_getAll color_form (js ''options'') = [FormString (js ''Red''), FormString (js ''Blue'')]"
  by code_simp+

lemma createPoll_color_form:
  "fst (createPoll (env1 (User alice)) color_form store1) = Inr (ActionResult None)"
  by code_simp

theorem createPoll_getPollById_roundtrip_witness:
  "createPoll (env1 (User alice)) color_form store1
     = (Inr (ActionResult None), snd (createPoll (env1 (User alice)) color_form store1))
   \<and> isValidPollId (env_new_id (env1 (User alice)))
   \<and> env_new_id (env1 (User alice)) \<notin> poll_id ` set (polls_table store1)
   \<and> (\<exists>p. polls_table (snd (createPoll (env1 (User alice)) color_form store1))
               = polls_table store1 @ [p]
           \<and> poll_id p = poll2_id \<and> poll_user_id p = alice
           \<and> poll_question p = js ''What is your favorite color?''
           \<and> poll_options p = [js ''Red'', js ''Blue'']
           \<and> getPollById (env1 NoUser) poll2_id
                  (snd (createPoll (env1 (User alice)) color_form store1))
                = (PollResult (Some p) None,
                   (snd (createPoll (env1 (User alice)) color_form store1))
                     \<lparr>calls := calls (snd (createPoll (env1 (User alice)) color_form store1))
                                 @ [PollsSelectById]\<rparr>))"
proof -
  let ?b' = "snd (createPoll (env1 (User alice)) color_form store1)"
  have created: "createPoll (env1 (User alice)) color_form store1 = (Inr (ActionResult None), ?b')"
    using createPoll_color_form by (simp add: prod_eq_iff)
  have new_id: "env_new_id (env1 (User alice)) = poll2_id"
    by (simp add: env1_def)
  have user: "env_auth (env1 (User alice)) = User alice"
    by (simp add: env1_def)
  have "poll2_id \<noteq> poll1_id"
    by code_simp
  then have fresh: "env_new_id (env1 (User alice)) \<notin> poll_id ` set (polls_table store1)"
    by (simp add: new_id store1_def poll1_def)
  have valid: "isValidPollId (env_new_id (env1 (User alice)))"
    by (simp add: new_id poll2_id_valid)
  have served: "PollsSelectById \<notin> env_failing (env1 NoUser)"
    by (simp add: env1_def)
  from createPoll_getPollById_roundtrip [OF created valid fresh served]
  obtain p where p: "polls_table ?b' = polls_table store1 @ [p]"
    "poll_id p = env_new_id (env1 (User alice))"
    "env_auth (env1 (User alice)) = User (poll_user_id p)"
    "getPollById (env1 NoUser) (env_new_id (env1 (User alice))) ?b'
                = (PollResult (Some p) None, ?b'\<lparr>calls := calls ?b' @ [PollsSelectById]\<rparr>)"
    "formData_get color_form (js ''question'')
                  = Some (FormString (js ''What is your favorite color?''))
                \<and> formData_getAll color_form (js ''options'')
                  = [FormString (js ''Red''), FormString (js ''Blue'')] \<longrightarrow>
              poll_question p = js ''What is your favorite color?''
              \<and> poll_options p = [js ''Red'', js ''Blue'']"
    by auto
  from p(3) user have owner: "poll_user_id p = alice"
    by simp
  from p(5) color_form_fields have fields: "poll_question p = js ''What is your favorite color?''"
    "poll_options p = [js ''Red'', js ''Blue'']"
    by simp_all
  have "polls_table ?b' = polls_table store1 @ [p]
           \<and> poll_id p = poll2_id \<and> poll_user_id p = alice
           \<and> poll_question p = js ''What is your favorite color?''
           \<and> poll_options p = [js ''Red'', js ''Blue'']
           \<and> getPollById (env1 NoUser) poll2_id ?b'
                = (PollResult (Some p) None, ?b'\<lparr>calls := calls ?b' @ [PollsSelectById]\<rparr>)"
    using p(1,2,4) owner fields new_id by simp
  then show ?thesis
    using created valid fresh by (intro conjI exI [of _ p]) simp_all
qed

section \<open>Empty and blank options\<close>

lemma question_not_options: "js ''question'' \<noteq> js ''options''"
  by code_simp

lemma getAll_drop_empty_options:
  "filter truthy (formData_getAll (drop_empty_options fd) (js ''options''))
     = filter truthy (formData_getAll fd (js ''options''))"
  by (induction fd) (auto simp: formData_getAll_def drop_empty_options_def)

lemma get_drop_empty_options:
  "formData_get (drop_empty_options fd) (js ''question'') = formData_get fd (js ''question'')"
  using question_not_options
  by (induction fd) (auto simp: formData_get_def drop_empty_options_def)

lemma createPoll_drop_empty_options:
  "createPoll e fd b = createPoll e (drop_empty_options fd) b"
  unfolding createPoll_def getAll_drop_empty_options get_drop_empty_options
  by (rule refl)

lemma updatePoll_drop_empty_options:
  "updatePoll e pid fd b = updatePoll e pid (drop_empty_options fd) b"
  unfolding updatePoll_def getAll_drop_empty_options get_drop_empty_options
  by (rule refl)

lemma sanitizeInput_map_strings:
  assumes "list_all (\<lambda>v. v \<noteq> FormFile) vs"
  shows "\<exists>ss. sanitizeInput_map vs = Inr ss
           \<and> (\<forall>s \<in> set ss. \<exists>w. FormString w \<in> set vs \<and> s = sanitizeInput w)
           \<and> (\<forall>w. FormString w \<in> set vs \<longrightarrow> sanitizeInput w \<in> set ss)"
  using assms
proof (induction vs)
  case Nil
  then show ?case by simp
next
  case (Cons v vs)
  then obtain w where v: "v = FormString w"
    by (cases v) auto
  from Cons obtain ss where ss: "sanitizeInput_map vs = Inr ss"
    "\<forall>s \<in> set ss. \<exists>w. FormString w \<in> set vs \<and> s = sanitizeInput w"
    "\<forall>w. FormString w \<in> set vs \<longrightarrow> sanitizeInput w \<in> set ss"
    by auto
  have "sanitizeInput_map (v # vs) = Inr (sanitizeInput w # ss)"
    by (simp add: v ss(1))
  moreover have "\<forall>s \<in> set (sanitizeInput w # ss). \<exists>u. FormString u \<in> set (v # vs) \<and> s = sanitizeInput u"
    using ss(2) v by auto
  moreover have "\<forall>u. FormString u \<in> set (v # vs) \<longrightarrow> sanitizeInput u \<in> set (sanitizeInput w # ss)"
    using ss(3) v by auto
  ultimately show ?case
    by blast
qed

lemma form_strings_parsed:
  assumes "form_strings fd"
  shows "\<exists>q ss. sanitizeInput_call (formData_get fd (js ''question'')) = Inr q
           \<and> sanitizeInput_map (filter truthy (formData_getAll fd (js ''options''))) = Inr ss
           \<and> (\<forall>s \<in> set ss. \<exists>w. FormString w \<in> set (formData_getAll fd (js ''options''))
                  \<and> w \<noteq> [] \<and> s = sanitizeInput w)
           \<and> (\<forall>w. FormString w \<in> set (formData_getAll fd (js ''options'')) \<and> w \<noteq> []
                  \<longrightarrow> sanitizeInput w \<in> set ss)"
proof -
  let ?vs = "filter truthy (formData_getAll fd (js ''options''))"
  from assms obtain qs where "formData_get fd (js ''question'') = Some (FormString qs)"
    by (auto simp: form_strings_def split: option.splits form_value.splits)
  then have q: "sanitizeInput_call (formData_get fd (js ''question'')) = Inr (sanitizeInput qs)"
    by simp
  from assms have "list_all (\<lambda>v. v \<noteq> FormFile) ?vs"
    by (auto simp: form_strings_def list_all_iff)
  then obtain ss where ss: "sanitizeInput_map ?vs = Inr ss"
    "\<forall>s \<in> set ss. \<exists>w. FormString w \<in> set ?vs \<and> s = sanitizeInput w"
    "\<forall>w. FormString w \<in> set ?vs \<longrightarrow> sanitizeInput w \<in> set ss"
    using sanitizeInput_map_strings by blast
  have "\<forall>s \<in> set ss. \<exists>w. FormString w \<in> set (formData_getAll fd (js ''options''))
                  \<and> w \<noteq> [] \<and> s = sanitizeInput w"
    using ss(2) by fastforce
  moreover have "\<forall>w. FormString w \<in> set (formData_getAll fd (js ''options'')) \<and> w \<noteq> []
                  \<longrightarrow> sanitizeInput w \<in> set ss"
    using ss(3) by simp
  ultimately show ?thesis
    using q ss(1) by blast
qed


lemma createPoll_rejected:
  assumes "sanitizeInput_call (formData_get fd (js ''question'')) = Inr q"
    and "sanitizeInput_map (filter truthy (formData_getAll fd (js ''options''))) = Inr ss"
    and "validatePollInput q ss = Some m"
  shows "createPoll e fd b = (Inr (ActionResult (Some m)), b)"
  by (simp add: createPoll_def assms)

lemma createPoll_accepted:
  assumes "sanitizeInput_call (formData_get fd (js ''question'')) = Inr q"
    and "sanitizeInput_map (filter truthy (formData_getAll fd (js ''options''))) = Inr ss"
    and "validatePollInput q ss = None"
  shows "fst (createPoll e fd b) \<in> {Inr (ActionResult None),
           Inr (ActionResult (Some ''Authentication error. Please try again.'')),
           Inr (ActionResult (Some ''You must be logged in to create a poll.'')),
           Inr (ActionResult (Some ''Failed to create poll. Please try again.''))}"
  by (cases "env_auth e")
    (simp_all add: createPoll_def assms auth_getUser_def polls_insert_def)

lemma updatePoll_rejected:
  assumes "isValidPollId pid"
    and "sanitizeInput_call (formData_get fd (js ''question'')) = Inr q"
    and "sanitizeInput_map (filter truthy (formData_getAll fd (js ''options''))) = Inr ss"
    and "validatePollInput q ss = Some m"
  shows "updatePoll e pid fd b = (Inr (ActionResult (Some m)), b)"
  by (simp add: updatePoll_def assms)

lemma updatePoll_accepted:
  assumes "sanitizeInput_call (formData_get fd (js ''question'')) = Inr q"
    and "sanitizeInput_map (filter truthy (formData_getAll fd (js ''options''))) = Inr ss"
    and "validatePollInput q ss = None"
  shows "fst (updatePoll e pid fd b) \<in> {Inr (ActionResult None),
           Inr (ActionResult (Some ''Invalid poll ID format.'')),
           Inr (ActionResult (Some ''Authentication error. Please try again.'')),
           Inr (ActionResult (Some ''You must be logged in to update a poll.'')),
           Inr (ActionResult (Some ''Failed to update poll or poll not found.''))}"
  by (cases "env_auth e")
    (simp_all add: updatePoll_def assms auth_getUser_def polls_update_def)

lemma validate_not_blaming_options:
  assumes "\<forall>s \<in> set ss. trim s \<noteq> []"
  shows "validatePollInput q ss \<noteq> Some ''All options must contain valid text.''"
proof -
  have "\<not> list_ex (\<lambda>opt. opt = [] \<or> length (trim opt) = 0) ss"
    using assms by (auto simp: list_ex_iff trim_def)
  then show ?thesis
    by (simp add: validatePollInput_def)
qed

lemma validate_empty_option:
  assumes "[] \<in> set ss"
  shows "validatePollInput q ss \<in> {Some ''Question must be at least 3 characters long.'',
           Some ''Please provide at least two options.'',
           Some ''All options must contain valid text.''}"
proof -
  have "list_ex (\<lambda>opt. opt = [] \<or> length (trim opt) = 0) ss"
    using assms by (auto simp: list_ex_iff)
  then show ?thesis
    by (simp add: validatePollInput_def)
qed

lemma sanitize_whitespace:
  assumes "\<forall>c \<in> set w. isWhiteSpace c"
  shows "sanitizeInput w = []"
proof -
  from assms have "trim w = []"
    by (simp only: trim_eq_Nil_iff)
  then show ?thesis
    by (simp add: sanitizeInput_def)
qed




text \<open>
  Claim C10. \<open>createPoll\<close> and \<open>updatePoll\<close> behave on a form exactly as on the
  form without its empty-string options. When every option that is not the empty string
  keeps text after sanitizing, neither handler answers "All options must contain valid
  text.": a dropped entry is never the reason for that error. An option that is not
  empty but consists of whitespace passes the filter, is sanitized to the empty string,
  and the submission is rejected with one of the validator's first three messages, the
  store untouched.
\<close>

theorem empty_options_dropped:
  "createPoll e fd b = createPoll e (drop_empty_options fd) b
   \<and> updatePoll e pid fd b = updatePoll e pid (drop_empty_options fd) b
   \<and> (form_strings fd
        \<and> (\<forall>w. FormString w \<in> set (formData_getAll fd (js ''options'')) \<longrightarrow>
               w = [] \<or> trim (sanitizeInput w) \<noteq> []) \<longrightarrow>
        fst (createPoll e fd b) \<noteq> Inr (ActionResult (Some ''All options must contain valid text.''))
        \<and> fst (updatePoll e pid fd b)
             \<noteq> Inr (ActionResult (Some ''All options must contain valid text.'')))
   \<and> (form_strings fd
        \<and> FormString w \<in> set (formData_getAll fd (js ''options''))
        \<and> w \<noteq> [] \<and> (\<forall>c \<in> set w. isWhiteSpace c) \<longrightarrow>
        truthy (FormString w) \<and> sanitizeInput w = []
        \<and> (\<exists>m \<in> {''Question must be at least 3 characters long.'',
                    ''Please provide at least two options.'',
                    ''All options must contain valid text.''}.
              createPoll e fd b = (Inr (ActionResult (Some m)), b)
              \<and> (isValidPollId pid \<longrightarrow> updatePoll e pid fd b = (Inr (ActionResult (Some m)), b))))"
proof (intro conjI impI)
  show "createPoll e fd b = createPoll e (drop_empty_options fd) b"
    by (rule createPoll_drop_empty_options)
  show "updatePoll e pid fd b = updatePoll e pid (drop_empty_options fd) b"
    by (rule updatePoll_drop_empty_options)
next
  assume a: "form_strings fd
        \<and> (\<forall>w. FormString w \<in> set (formData_getAll fd (js ''options'')) \<longrightarrow>
               w = [] \<or> trim (sanitizeInput w) \<noteq> [])"
  then obtain q ss where
    q: "sanitizeInput_call (formData_get fd (js ''question'')) = Inr q"
    and ss: "sanitizeInput_map (filter truthy (formData_getAll fd (js ''options''))) = Inr ss"
    and from_opts: "\<forall>s \<in> set ss. \<exists>w. FormString w \<in> set (formData_getAll fd (js ''options''))
                  \<and> w \<noteq> [] \<and> s = sanitizeInput w"
    using form_strings_parsed by blast
  from a from_opts have "\<forall>s \<in> set ss. trim s \<noteq> []"
    by fastforce
  then have v: "validatePollInput q ss \<noteq> Some ''All options must contain valid text.''"
    by (rule validate_not_blaming_options)
  show "fst (createPoll e fd b) \<noteq> Inr (ActionResult (Some ''All options must contain valid text.''))"
  proof (cases "validatePollInput q ss")
    case None
    from createPoll_accepted [OF q ss None, of e b] show ?thesis
      by auto
  next
    case (Some m)
    with v createPoll_rejected [OF q ss Some, of e b] show ?thesis
      by simp
  qed
  show "fst (updatePoll e pid fd b) \<noteq> Inr (ActionResult (Some ''All options must contain valid text.''))"
  proof (cases "validatePollInput q ss")
    case None
    from updatePoll_accepted [OF q ss None, of e pid b] show ?thesis
      by auto
  next
    case (Some m)
    show ?thesis
    proof (cases "isValidPollId pid")
      case True
      with v updatePoll_rejected [OF True q ss Some, of e b] Some show ?thesis
        by simp
    next
      case False
      then show ?thesis
        by (simp add: updatePoll_def)
    qed
  qed
next
  assume a: "form_strings fd
        \<and> FormString w \<in> set (formData_getAll fd (js ''options''))
        \<and> w \<noteq> [] \<and> (\<forall>c \<in> set w. isWhiteSpace c)"
  then show "truthy (FormString w)"
    by simp
  from a show empty: "sanitizeInput w = []"
    by (simp add: sanitize_whitespace)
  from a obtain q ss where
    q: "sanitizeInput_call (formData_get fd (js ''question'')) = Inr q"
    and ss: "sanitizeInput_map (filter truthy (formData_getAll fd (js ''options''))) = Inr ss"
    and to_opts: "\<forall>w. FormString w \<in> set (formData_getAll fd (js ''options'')) \<and> w \<noteq> []
                  \<longrightarrow> sanitizeInput w \<in> set ss"
    using form_strings_parsed by blast
  from a to_opts empty have "[] \<in> set ss"
    by force
  then have "validatePollInput q ss \<in> {Some ''Question must be at least 3 characters long.'',
           Some ''Please provide at least two options.'',
           Some ''All options must contain valid text.''}"
    by (rule validate_empty_option)
  then obtain m where m: "validatePollInput q ss = Some m"
    and which: "m \<in> {''Question must be at least 3 characters long.'',
                    ''Please provide at least two options.'',
                    ''All options must contain valid text.''}"
    by blast
  have "createPoll e fd b = (Inr (ActionResult (Some m)), b)"
    by (rule createPoll_rejected [OF q ss m])
  moreover have "isValidPollId pid \<longrightarrow> updatePoll e pid fd b = (Inr (ActionResult (Some m)), b)"
    using updatePoll_rejected [OF _ q ss m] by blast
  ultimately show "\<exists>m \<in> {''Question must be at least 3 characters long.'',
                    ''Please provide at least two options.'',
                    ''All options must contain valid text.''}.
              createPoll e fd b = (Inr (ActionResult (Some m)), b)
              \<and> (isValidPollId pid \<longrightarrow> updatePoll e pid fd b = (Inr (ActionResult (Some m)), b))"
    using which by blast
qed

lemma drop_empty_a_b:
  "drop_empty_options (options_form [js ''A'', [], js ''B'']) = options_form [js ''A'', js ''B'']"
  by code_simp

lemma form_a_empty:
  "form_strings (options_form [js ''A'', []])"
  "formData_getAll (options_form [js ''A'', []]) (js ''options'') = [FormString (js ''A''), FormString []]"
  "trim (sanitizeInput (js ''A'')) \<noteq> []"
  "fst (createPoll (env1 (User alice)) (options_form [js ''A'', []]) store1)
     = Inr (ActionResult (Some ''Please provide at least two options.''))"
  by code_simp+

lemma form_a_blank:
  "form_strings (options_form [js ''A'', js '' ''])"
  "FormString (js '' '') \<in> set (formData_getAll (options_form [js ''A'', js '' '']) (js ''options''))"
  "js '' '' \<noteq> []" "\<forall>c \<in> set (js '' ''). isWhiteSpace c"
  "fst (createPoll (env1 (User alice)) (options_form [js ''A'', js '' '']) store1)
     = Inr (ActionResult (Some ''All options must contain valid text.''))"
  by code_simp+

theorem empty_options_dropped_witness:
  "createPoll (env1 (User alice)) (options_form [js ''A'', [], js ''B'']) store1
     = createPoll (env1 (User alice)) (options_form [js ''A'', js ''B'']) store1
   \<and> updatePoll (env1 (User alice)) poll1_id (options_form [js ''A'', [], js ''B'']) store1
     = updatePoll (env1 (User alice)) poll1_id (options_form [js ''A'', js ''B'']) store1
   \<and> fst (createPoll (env1 (User alice)) (options_form [js ''A'', []]) store1)
       \<noteq> Inr (ActionResult (Some ''All options must contain valid text.''))
   \<and> fst (createPoll (env1 (User alice)) (options_form [js ''A'', []]) store1)
       = Inr (ActionResult (Some ''Please provide at least two options.''))
   \<and> truthy (FormString (js '' '')) \<and> sanitizeInput (js '' '') = []
   \<and> (\<exists>m \<in> {''Question must be at least 3 characters long.'',
                    ''Please provide at least two options.'',
                    ''All options must contain valid text.''}.
         createPoll (env1 (User alice)) (options_form [js ''A'', js '' '']) store1
           = (Inr (ActionResult (Some m)), store1)
         \<and> (isValidPollId poll1_id \<longrightarrow>
              updatePoll (env1 (User alice)) poll1_id (options_form [js ''A'', js '' '']) store1
                = (Inr (ActionResult (Some m)), store1)))
   \<and> fst (createPoll (env1 (User alice)) (options_form [js ''A'', js '' '']) store1)
       = Inr (ActionResult (Some ''All options must contain valid text.''))"
proof -
  let ?e = "env1 (User alice)"
  note t1 = empty_options_dropped [of ?e "options_form [js ''A'', [], js ''B'']" store1
        poll1_id "js ''A''"]
  note t2 = empty_options_dropped [of ?e "options_form [js ''A'', []]" store1 poll1_id "js ''A''"]
  note t3 = empty_options_dropped [of ?e "options_form [js ''A'', js '' '']" store1
        poll1_id "js '' ''"]
  have c: "createPoll ?e (options_form [js ''A'', [], js ''B'']) store1
     = createPoll ?e (options_form [js ''A'', js ''B'']) store1"
    using t1 [THEN conjunct1] unfolding drop_empty_a_b .
  have u: "updatePoll ?e poll1_id (options_form [js ''A'', [], js ''B'']) store1
     = updatePoll ?e poll1_id (options_form [js ''A'', js ''B'']) store1"
    using t1 [THEN conjunct2, THEN conjunct1] unfolding drop_empty_a_b .
  have kept: "\<forall>w. FormString w \<in> set (formData_getAll (options_form [js ''A'', []]) (js ''options''))
          \<longrightarrow> w = [] \<or> trim (sanitizeInput w) \<noteq> []"
    by (simp add: form_a_empty(2,3))
  have n: "fst (createPoll ?e (options_form [js ''A'', []]) store1)
       \<noteq> Inr (ActionResult (Some ''All options must contain valid text.''))"
    using mp [OF t2 [THEN conjunct2, THEN conjunct2, THEN conjunct1]
                conjI [OF form_a_empty(1) kept]]
    by (rule conjunct1)
  note d = mp [OF t3 [THEN conjunct2, THEN conjunct2, THEN conjunct2]
                conjI [OF form_a_blank(1) conjI [OF form_a_blank(2) conjI [OF form_a_blank(3,4)]]]]
  note d1 = d [THEN conjunct1]
  note d2 = d [THEN conjunct2, THEN conjunct1]
  note d3 = d [THEN conjunct2, THEN conjunct2]
  show ?thesis
    by (intro conjI) (fact c u n form_a_empty(4) d1 d2 d3 form_a_blank(5))+
qed

section \<open>One vote per user\<close>

lemma one_vote_per_user_iff:
  "one_vote_per_user vs \<longleftrightarrow>
     (\<forall>v \<in> set vs. vote_user_id v \<noteq> None \<longrightarrow>
        length (filter (\<lambda>w. vote_poll_id w = vote_poll_id v \<and> vote_user_id w = vote_user_id v) vs) \<le> 1)"
  by (simp add: one_vote_per_user_def list_all_iff)

lemma one_vote_per_user_filter:
  assumes "one_vote_per_user vs"
  shows "one_vote_per_user (filter Q vs)"
  unfolding one_vote_per_user_iff
proof (intro ballI impI)
  fix v :: vote_row
  assume v: "v \<in> set (filter Q vs)" "vote_user_id v \<noteq> None"
  let ?same = "\<lambda>w. vote_poll_id w = vote_poll_id v \<and> vote_user_id w = vote_user_id v"
  have "length (filter ?same (filter Q vs)) = length (filter Q (filter ?same vs))"
    by (simp add: conj_commute)
  also have "\<dots> \<le> length (filter ?same vs)"
    by (rule length_filter_le)
  also have "\<dots> \<le> 1"
    using assms v by (simp add: one_vote_per_user_iff)
  finally show "length (filter ?same (filter Q vs)) \<le> 1" .
qed

lemma one_vote_per_user_anonymous:
  assumes "one_vote_per_user vs"
  shows "one_vote_per_user (vs @ [\<lparr>vote_poll_id = pid, vote_user_id = None, vote_option_index = i\<rparr>])"
  using assms by (auto simp: one_vote_per_user_iff)

lemma one_vote_per_user_first_vote:
  assumes "one_vote_per_user vs"
    and "filter (\<lambda>w. vote_poll_id w = pid \<and> vote_user_id w = Some u) vs = []"
  shows "one_vote_per_user (vs @ [\<lparr>vote_poll_id = pid, vote_user_id = Some u, vote_option_index = i\<rparr>])"
  unfolding one_vote_per_user_iff
proof (intro ballI impI)
  fix v :: vote_row
  let ?new = "\<lparr>vote_poll_id = pid, vote_user_id = Some u, vote_option_index = i\<rparr>"
  let ?same = "\<lambda>w. vote_poll_id w = vote_poll_id v \<and> vote_user_id w = vote_user_id v"
  assume v: "v \<in> set (vs @ [?new])" "vote_user_id v \<noteq> None"
  show "length (filter ?same (vs @ [?new])) \<le> 1"
  proof (cases "vote_poll_id v = pid \<and> vote_user_id v = Some u")
    case True
    then have "filter ?same vs = []"
      using assms(2) by simp
    then show ?thesis
      by simp
  next
    case False
    then have "v \<in> set vs"
      using v(1) by auto
    then have "length (filter ?same vs) \<le> 1"
      using assms(1) v(2) by (simp add: one_vote_per_user_iff)
    moreover have "filter ?same [?new] = []"
      using False by auto
    ultimately show ?thesis
      by (simp only: filter_append append_Nil2)
  qed
qed

lemma existing_vote_found:
  assumes "one_vote_per_user vs" "v \<in> set vs" "vote_poll_id v = pid" "vote_user_id v = Some u"
  shows "filter (\<lambda>w. vote_poll_id w = pid \<and> vote_user_id w = Some u) vs = [v]"
proof -
  let ?f = "filter (\<lambda>w. vote_poll_id w = pid \<and> vote_user_id w = Some u) vs"
  have "v \<in> set ?f"
    using assms(2,3,4) by simp
  moreover have "length ?f \<le> 1"
    using assms by (auto simp: one_vote_per_user_iff)
  ultimately show ?thesis
    by (cases ?f) auto
qed

lemma no_vote_found:
  assumes "one_vote_per_user vs"
    and "single_row (filter (\<lambda>w. vote_poll_id w = pid \<and> vote_user_id w = Some u) vs) = None"
  shows "filter (\<lambda>w. vote_poll_id w = pid \<and> vote_user_id w = Some u) vs = []"
proof (rule ccontr)
  let ?f = "filter (\<lambda>w. vote_poll_id w = pid \<and> vote_user_id w = Some u) vs"
  assume "?f \<noteq> []"
  then obtain v where "v \<in> set ?f"
    by (cases ?f) auto
  then have "v \<in> set vs" "vote_poll_id v = pid" "vote_user_id v = Some u"
    by simp_all
  then have "?f = [v]"
    using assms(1) by (intro existing_vote_found)
  with assms(2) show False
    by (simp add: single_row_def)
qed

lemma createPoll_votes: "votes_table (snd (createPoll e fd b)) = votes_table b"
  by (cases "env_auth e")
    (simp_all add: createPoll_def auth_getUser_def polls_insert_def record_call_def
      revalidatePath_def split: sum.splits option.splits)

lemma updatePoll_votes: "votes_table (snd (updatePoll e pid fd b)) = votes_table b"
  by (cases "env_auth e")
    (simp_all add: updatePoll_def auth_getUser_def polls_update_def record_call_def
      revalidatePath_def split: sum.splits option.splits)

lemma getUserPolls_votes: "votes_table (snd (getUserPolls e b)) = votes_table b"
  by (cases "env_auth e")
    (simp_all add: getUserPolls_def auth_getUser_def polls_select_by_user_def record_call_def)

lemma getPollById_votes: "votes_table (snd (getPollById e pid b)) = votes_table b"
  by (simp add: getPollById_def polls_select_by_id_def record_call_def split: option.splits)

lemma deletePoll_votes:
  "votes_table (snd (deletePoll e pid b)) = votes_table b
   \<or> votes_table (snd (deletePoll e pid b)) = filter (\<lambda>v. vote_poll_id v \<noteq> pid) (votes_table b)"
  by (cases "env_auth e")
    (simp_all add: deletePoll_def auth_getUser_def polls_delete_def record_call_def
      revalidatePath_def)

lemma submitVote_votes:
  "votes_table (snd (submitVote e pid n b)) = votes_table b
   \<or> (\<exists>i. auth_user (env_auth e) = None
          \<and> votes_table (snd (submitVote e pid n b))
              = votes_table b @ [\<lparr>vote_poll_id = pid, vote_user_id = None, vote_option_index = i\<rparr>])
   \<or> (\<exists>i u. auth_user (env_auth e) = Some u
          \<and> (VotesSelect \<in> env_failing e
              \<or> single_row (filter (\<lambda>w. vote_poll_id w = pid \<and> vote_user_id w = Some u)
                     (votes_table b)) = None)
          \<and> votes_table (snd (submitVote e pid n b))
              = votes_table b @ [\<lparr>vote_poll_id = pid, vote_user_id = Some u, vote_option_index = i\<rparr>])"
  by (cases "env_auth e")
    (auto simp: submitVote_def submitVote_insert_def auth_getUser_def polls_select_options_def
      votes_select_def votes_insert_def record_call_def Let_def
      split: js_number.splits option.splits)

lemma submitVote_keeps_invariant:
  assumes "one_vote_per_user (votes_table b)" "VotesSelect \<notin> env_failing e"
  shows "one_vote_per_user (votes_table (snd (submitVote e pid n b)))"
proof -
  consider
    (same) "votes_table (snd (submitVote e pid n b)) = votes_table b"
  | (anon) i where "votes_table (snd (submitVote e pid n b))
              = votes_table b @ [\<lparr>vote_poll_id = pid, vote_user_id = None, vote_option_index = i\<rparr>]"
  | (user) i u where
      "single_row (filter (\<lambda>w. vote_poll_id w = pid \<and> vote_user_id w = Some u)
                     (votes_table b)) = None"
      "votes_table (snd (submitVote e pid n b))
              = votes_table b @ [\<lparr>vote_poll_id = pid, vote_user_id = Some u, vote_option_index = i\<rparr>]"
    using submitVote_votes [of e pid n b] assms(2) by auto
  then show ?thesis
  proof cases
    case same
    with assms(1) show ?thesis by simp
  next
    case anon
    with assms(1) show ?thesis by (simp add: one_vote_per_user_anonymous)
  next
    case user
    from no_vote_found [OF assms(1) user(1)] assms(1) user(2) show ?thesis
      by (simp add: one_vote_per_user_first_vote)
  qed
qed

lemma handle_keeps_invariant:
  assumes "one_vote_per_user (votes_table b)" "VotesSelect \<notin> env_failing e"
  shows "one_vote_per_user (votes_table (snd (handle e r b)))"
proof (cases r)
  case (CreatePoll fd)
  with assms(1) show ?thesis by (simp add: createPoll_votes)
next
  case GetUserPolls
  with assms(1) show ?thesis by (simp add: getUserPolls_votes)
next
  case (GetPollById pid)
  with assms(1) show ?thesis by (simp add: getPollById_votes)
next
  case (SubmitVote pid n)
  with assms show ?thesis by (simp add: submitVote_keeps_invariant)
next
  case (DeletePoll pid)
  from deletePoll_votes [of e pid b] assms(1)
  have "one_vote_per_user (votes_table (snd (deletePoll e pid b)))"
    by (auto simp: one_vote_per_user_filter)
  with DeletePoll show ?thesis by simp
next
  case (UpdatePoll pid fd)
  with assms(1) show ?thesis by (simp add: updatePoll_votes)
next
  case (Login data)
  with assms(1) show ?thesis
    by (simp add: login_def auth_signInWithPassword_def record_call_def split: option.splits)
next
  case (Register data)
  with assms(1) show ?thesis
    by (simp add: register_def auth_signUp_def record_call_def split: option.splits)
next
  case Logout
  with assms(1) show ?thesis
    by (simp add: logout_def auth_signOut_def record_call_def split: option.splits)
next
  case GetCurrentUser
  with assms(1) show ?thesis
    by (simp add: getCurrentUser_def auth_getUser_def record_call_def)
next
  case GetSession
  with assms(1) show ?thesis
    by (simp add: getSession_def auth_getSession_def record_call_def)
qed

lemma run_keeps_invariant:
  assumes "one_vote_per_user (votes_table b)"
    and "\<forall>er \<in> set trace. VotesSelect \<notin> env_failing (fst er)"
  shows "one_vote_per_user (votes_table (snd (run trace b)))"
  using assms
proof (induction trace arbitrary: b)
  case Nil
  then show ?case by simp
next
  case (Cons er trace)
  obtain e r where er: "er = (e, r)"
    by (cases er)
  have "one_vote_per_user (votes_table (snd (handle e r b)))"
    using Cons.prems er by (intro handle_keeps_invariant) auto
  then have "one_vote_per_user (votes_table (snd (run trace (snd (handle e r b)))))"
    using Cons.prems(2) by (intro Cons.IH) auto
  then show ?case
    by (simp add: er case_prod_beta)
qed

lemma submitVote_already_voted:
  assumes "one_vote_per_user (votes_table b)" "env_auth e = User u" "isValidPollId pid"
    and "filter (\<lambda>p. poll_id p = pid) (polls_table b) = [P]"
    and "v \<in> set (votes_table b)" "vote_poll_id v = pid" "vote_user_id v = Some u"
    and "PollsSelectOptions \<notin> env_failing e" "VotesSelect \<notin> env_failing e"
    and "0 \<le> i" "i < int (length (poll_options P))"
  shows "submitVote e pid (Integer i) b
           = (ActionResult (Some ''You have already voted on this poll.''),
              b\<lparr>calls := calls b @ [AuthGetUser, PollsSelectOptions, VotesSelect]\<rparr>)"
proof -
  have "filter (\<lambda>w. vote_poll_id w = pid \<and> vote_user_id w = Some u) (votes_table b) = [v]"
    using assms(1,5,6,7) by (rule existing_vote_found)
  then show ?thesis
    using assms(2,3,4,8,9,10,11)
    by (simp add: submitVote_def auth_getUser_def polls_select_options_def votes_select_def
        record_call_def single_row_def)
qed

lemma submitVote_second_vote_not_inserted:
  assumes "one_vote_per_user (votes_table b)" "env_auth e = User u"
    and "v \<in> set (votes_table b)" "vote_poll_id v = pid" "vote_user_id v = Some u"
    and "VotesSelect \<notin> env_failing e"
  shows "votes_table (snd (submitVote e pid n b)) = votes_table b"
proof -
  have found: "filter (\<lambda>w. vote_poll_id w = pid \<and> vote_user_id w = Some u) (votes_table b) = [v]"
    using assms(1,3,4,5) by (rule existing_vote_found)
  show ?thesis
    using assms(2,6) found
    by (auto simp: submitVote_def auth_getUser_def polls_select_options_def votes_select_def
        record_call_def single_row_def Let_def split: js_number.splits option.splits)
qed

lemma submitVote_polls: "polls_table (snd (submitVote e pid n b)) = polls_table b"
  by (cases "env_auth e")
    (auto simp: submitVote_def submitVote_insert_def auth_getUser_def polls_select_options_def
      votes_select_def votes_insert_def record_call_def Let_def
      split: js_number.splits option.splits)

text \<open>
  Claim C2, as the code has it. Started in a store where every authenticated user has
  at most one vote per poll, every sequence of handler invocations in which the backend
  serves the duplicate-vote lookup ends in such a store. A user who already has a vote
  on the poll gets no further vote inserted, whatever the index: the votes table is
  unchanged. The answer is "You have already voted on this poll." when the identifier
  has the right shape, the poll exists, its options are fetched and the index is within
  them; the checks of the identifier and of the index come first and answer with their
  own messages.
\<close>

theorem one_vote_per_user_preserved:
  "(one_vote_per_user (votes_table b)
      \<and> (\<forall>er \<in> set trace. VotesSelect \<notin> env_failing (fst er)) \<longrightarrow>
    one_vote_per_user (votes_table (snd (run trace b))))
   \<and> (one_vote_per_user (votes_table b) \<and> env_auth e = User u
        \<and> v \<in> set (votes_table b) \<and> vote_poll_id v = pid \<and> vote_user_id v = Some u
        \<and> VotesSelect \<notin> env_failing e \<longrightarrow>
      votes_table (snd (submitVote e pid n b)) = votes_table b
      \<and> (isValidPollId pid \<and> filter (\<lambda>p. poll_id p = pid) (polls_table b) = [P]
           \<and> PollsSelectOptions \<notin> env_failing e
           \<and> 0 \<le> i \<and> i < int (length (poll_options P)) \<longrightarrow>
         submitVote e pid (Integer i) b
           = (ActionResult (Some ''You have already voted on this poll.''),
              b\<lparr>calls := calls b @ [AuthGetUser, PollsSelectOptions, VotesSelect]\<rparr>)))"
proof (intro conjI impI)
  assume "one_vote_per_user (votes_table b)
      \<and> (\<forall>er \<in> set trace. VotesSelect \<notin> env_failing (fst er))"
  then show "one_vote_per_user (votes_table (snd (run trace b)))"
    by (simp add: run_keeps_invariant)
next
  assume a: "one_vote_per_user (votes_table b) \<and> env_auth e = User u
        \<and> v \<in> set (votes_table b) \<and> vote_poll_id v = pid \<and> vote_user_id v = Some u
        \<and> VotesSelect \<notin> env_failing e"
  then show "votes_table (snd (submitVote e pid n b)) = votes_table b"
    by (intro submitVote_second_vote_not_inserted [of b e u v]) simp_all
  assume "isValidPollId pid \<and> filter (\<lambda>p. poll_id p = pid) (polls_table b) = [P]
           \<and> PollsSelectOptions \<notin> env_failing e
           \<and> 0 \<le> i \<and> i < int (length (poll_options P))"
  with a show "submitVote e pid (Integer i) b
           = (ActionResult (Some ''You have already voted on this poll.''),
              b\<lparr>calls := calls b @ [AuthGetUser, PollsSelectOptions, VotesSelect]\<rparr>)"
    by (intro submitVote_already_voted [of b e u pid P v]) simp_all
qed

lemma store1_invariant: "one_vote_per_user (votes_table store1)"
  by code_simp

lemma bobs_vote_facts:
  "bobs_vote \<in> set (votes_table store1)" "vote_poll_id bobs_vote = poll1_id"
  "vote_user_id bobs_vote = Some bob"
  by (simp_all add: store1_def bobs_vote_def)

text \<open>
  Claim C2 as stated fails for an index outside the options: Bob has voted on the poll
  with two options, and his second vote with index 5 is answered with "Invalid option
  selection.".
\<close>

theorem submitVote_second_vote_counterexample:
  "one_vote_per_user (votes_table store1)
   \<and> bobs_vote \<in> set (votes_table store1)
   \<and> vote_poll_id bobs_vote = poll1_id \<and> vote_user_id bobs_vote = Some bob
   \<and> env_auth (env1 (User bob)) = User bob
   \<and> fst (submitVote (env1 (User bob)) poll1_id (Integer 5) store1)
       = ActionResult (Some ''Invalid option selection.'')
   \<and> fst (submitVote (env1 (User bob)) poll1_id (Integer 5) store1)
       \<noteq> ActionResult (Some ''You have already voted on this poll.'')"
proof -
  have "fst (submitVote (env1 (User bob)) poll1_id (Integer 5) store1)
       = ActionResult (Some ''Invalid option selection.'')"
    by code_simp
  then show ?thesis
    using store1_invariant bobs_vote_facts by (simp add: env1_def)
qed

theorem one_vote_per_user_preserved_witness:
  "one_vote_per_user (votes_table store1)
   \<and> one_vote_per_user (votes_table (snd (run
        [(env1 (User alice), SubmitVote poll1_id (Integer 1)),
         (env1 (User alice), SubmitVote poll1_id (Integer 0)),
         (env1 (User bob), DeletePoll poll1_id)] store1)))
   \<and> votes_table (snd (submitVote (env1 (User bob)) poll1_id (Integer 5) store1))
       = votes_table store1
   \<and> submitVote (env1 (User bob)) poll1_id (Integer 1) store1
       = (ActionResult (Some ''You have already voted on this poll.''),
          store1\<lparr>calls := calls store1 @ [AuthGetUser, PollsSelectOptions, VotesSelect]\<rparr>)"
proof -
  have env: "env_auth (env1 (User bob)) = User bob" "env_failing (env1 (User bob)) = {}"
    "env_failing (env1 (User alice)) = {}"
    by (simp_all add: env1_def)
  have opts: "length (poll_options poll1) = 2"
    by (simp add: poll1_def)
  show ?thesis
    using store1_invariant bobs_vote_facts poll1_id_valid store1_poll1 env opts
      one_vote_per_user_preserved [of store1
        "[(env1 (User alice), SubmitVote poll1_id (Integer 1)),
          (env1 (User alice), SubmitVote poll1_id (Integer 0)),
          (env1 (User bob), DeletePoll poll1_id)]"
        "env1 (User bob)" bob bobs_vote poll1_id "Integer 5" poll1 1]
    by (simp del: run.simps)
qed

section \<open>Deleting a poll one does not own\<close>

lemma polls_delete_not_owner:
  assumes "\<forall>p \<in> set (polls_table b). \<not> (poll_id p = pid \<and> poll_user_id p = u)"
  shows "polls_delete e pid u b
          = (PollsDelete \<in> env_failing e, b\<lparr>calls := calls b @ [PollsDelete]\<rparr>)"
proof -
  have "filter (\<lambda>p. \<not> (poll_id p = pid \<and> poll_user_id p = u)) (polls_table b) = polls_table b"
    using assms by (simp add: filter_id_conv)
  moreover have "\<not> list_ex (\<lambda>p. poll_id p = pid \<and> poll_user_id p = u) (polls_table b)"
    using assms by (simp add: list_ex_iff)
  ultimately show ?thesis
    by (simp add: polls_delete_def record_call_def)
qed

lemma deletePoll_no_owned_row:
  assumes "isValidPollId pid" "env_auth e = User u"
    and "\<forall>p \<in> set (polls_table b). \<not> (poll_id p = pid \<and> poll_user_id p = u)"
  shows "deletePoll e pid b
          = (if PollsDelete \<in> env_failing e
             then (ActionResult (Some ''Failed to delete poll or poll not found.''),
                   b\<lparr>calls := calls b @ [AuthGetUser, PollsDelete]\<rparr>)
             else (ActionResult None,
                   b\<lparr>calls := calls b @ [AuthGetUser, PollsDelete, RevalidatePath]\<rparr>))"
proof -
  have "\<forall>p \<in> set (polls_table (record_call AuthGetUser b)).
          \<not> (poll_id p = pid \<and> poll_user_id p = u)"
    using assms(3) by (simp add: record_call_def)
  then have "polls_delete e pid u (record_call AuthGetUser b)
          = (PollsDelete \<in> env_failing e,
             (record_call AuthGetUser b)\<lparr>calls := calls (record_call AuthGetUser b) @ [PollsDelete]\<rparr>)"
    by (rule polls_delete_not_owner)
  then show ?thesis
    using assms(1,2)
    by (simp add: deletePoll_def auth_getUser_def revalidatePath_def record_call_def)
qed

text \<open>
  Claim C1, as the code has it. Let the identifiers of the polls be distinct, \<open>P\<close> a
  poll with an identifier of the right shape, and the caller an authenticated user who
  does not own \<open>P\<close>. Then \<open>deletePoll\<close> on the identifier of \<open>P\<close> leaves the polls and
  the votes as they were, and returns what it returns on an identifier of the right
  shape that no poll has: \<open>{error: null}\<close> when the backend serves the delete, and
  "Failed to delete poll or poll not found." when the backend fails the call.
\<close>

theorem deletePoll_not_owner:
  assumes "P \<in> set (polls_table b)" "distinct (map poll_id (polls_table b))"
    and "isValidPollId (poll_id P)"
    and "env_auth e = User u" "poll_user_id P \<noteq> u"
    and "isValidPollId missing" "missing \<notin> poll_id ` set (polls_table b)"
  shows "deletePoll e (poll_id P) b
          = (if PollsDelete \<in> env_failing e
             then (ActionResult (Some ''Failed to delete poll or poll not found.''),
                   b\<lparr>calls := calls b @ [AuthGetUser, PollsDelete]\<rparr>)
             else (ActionResult None,
                   b\<lparr>calls := calls b @ [AuthGetUser, PollsDelete, RevalidatePath]\<rparr>))
       \<and> polls_table (snd (deletePoll e (poll_id P) b)) = polls_table b
       \<and> votes_table (snd (deletePoll e (poll_id P) b)) = votes_table b
       \<and> deletePoll e (poll_id P) b = deletePoll e missing b"
proof -
  have "inj_on poll_id (set (polls_table b))"
    using assms(2) by (simp add: distinct_map)
  then have "\<forall>p \<in> set (polls_table b). poll_id p = poll_id P \<longrightarrow> p = P"
    using assms(1) by (auto dest: inj_onD)
  then have not_owned: "\<forall>p \<in> set (polls_table b). \<not> (poll_id p = poll_id P \<and> poll_user_id p = u)"
    using assms(5) by auto
  have absent: "\<forall>p \<in> set (polls_table b). \<not> (poll_id p = missing \<and> poll_user_id p = u)"
    using assms(7) by auto
  note r1 = deletePoll_no_owned_row [OF assms(3,4) not_owned]
  note r2 = deletePoll_no_owned_row [OF assms(6) assms(4) absent]
  show ?thesis
    by (simp add: r1 r2)
qed

text \<open>
  Claim C1 as stated fails: Bob deletes Alice's poll and the answer carries no error.
\<close>

theorem deletePoll_not_owner_counterexample:
  "poll1 \<in> set (polls_table store1) \<and> poll_id poll1 = poll1_id \<and> poll_user_id poll1 = alice
   \<and> alice \<noteq> bob \<and> env_auth (env1 (User bob)) = User bob
   \<and> error (fst (deletePoll (env1 (User bob)) poll1_id store1)) = None"
proof -
  have "error (fst (deletePoll (env1 (User bob)) poll1_id store1)) = None"
    by code_simp
  moreover have "alice \<noteq> bob"
    by code_simp
  ultimately show ?thesis
    by (simp add: store1_def poll1_def env1_def)
qed

theorem deletePoll_not_owner_witness:
  "poll1 \<in> set (polls_table store1) \<and> poll_user_id poll1 \<noteq> bob
   \<and> deletePoll (env1 (User bob)) (poll_id poll1) store1
       = (ActionResult None,
          store1\<lparr>calls := calls store1 @ [AuthGetUser, PollsDelete, RevalidatePath]\<rparr>)
   \<and> polls_table (snd (deletePoll (env1 (User bob)) (poll_id poll1) store1)) = polls_table store1
   \<and> votes_table (snd (deletePoll (env1 (User bob)) (poll_id poll1) store1)) = votes_table store1
   \<and> deletePoll (env1 (User bob)) (poll_id poll1) store1
       = deletePoll (env1 (User bob)) poll2_id store1"
proof -
  have p: "poll1 \<in> set (polls_table store1)" "distinct (map poll_id (polls_table store1))"
    by (simp_all add: store1_def)
  have id1: "poll_id poll1 = poll1_id"
    by (simp add: poll1_def)
  have v: "isValidPollId (poll_id poll1)"
    by (simp add: id1 poll1_id_valid)
  have e: "env_auth (env1 (User bob)) = User bob" "PollsDelete \<notin> env_failing (env1 (User bob))"
    by (simp_all add: env1_def)
  have "alice \<noteq> bob"
    by code_simp
  then have o: "poll_user_id poll1 \<noteq> bob"
    by (simp add: poll1_def)
  have "poll2_id \<noteq> poll1_id"
    by code_simp
  then have m: "poll2_id \<notin> poll_id ` set (polls_table store1)"
    by (simp add: store1_def id1)
  note t = deletePoll_not_owner [OF p v e(1) o poll2_id_valid m]
  have r: "deletePoll (env1 (User bob)) (poll_id poll1) store1
       = (ActionResult None,
          store1\<lparr>calls := calls store1 @ [AuthGetUser, PollsDelete, RevalidatePath]\<rparr>)"
    using t [THEN conjunct1] e(2) by simp
  show ?thesis
    by (intro conjI)
      (fact p(1) o r t [THEN conjunct2, THEN conjunct1]
        t [THEN conjunct2, THEN conjunct2, THEN conjunct1]
        t [THEN conjunct2, THEN conjunct2, THEN conjunct2])+
qed

section \<open>Which invocations return, and what\<close>

lemma sanitizeInput_map_returns_iff:
  "(\<exists>ss. sanitizeInput_map vs = Inr ss) \<longleftrightarrow> list_all (\<lambda>v. v \<noteq> FormFile) vs"
proof (induction vs)
  case Nil
  show ?case by simp
next
  case (Cons v vs)
  show ?case
  proof (cases v)
    case (FormString w)
    with Cons show ?thesis
      by (cases "sanitizeInput_map vs") auto
  next
    case FormFile
    then show ?thesis by simp
  qed
qed

lemma list_all_filter_truthy:
  "list_all (\<lambda>v. v \<noteq> FormFile) (filter truthy vs) \<longleftrightarrow> list_all (\<lambda>v. v \<noteq> FormFile) vs"
proof (induction vs)
  case Nil
  show ?case by simp
next
  case (Cons v vs)
  then show ?case by (cases v) auto
qed

lemma sanitizeInput_call_returns:
  assumes "sanitizeInput_call v = Inr q"
  shows "\<exists>s. v = Some (FormString s)"
  using assms by (cases v rule: sanitizeInput_call.cases) simp_all

lemma createPoll_returns_iff:
  "(\<exists>r. fst (createPoll e fd b) = Inr r) \<longleftrightarrow> form_strings fd"
proof (cases "sanitizeInput_call (formData_get fd (js ''question''))")
  case (Inl x)
  then have "\<not> form_strings fd"
    by (auto simp: form_strings_def split: option.splits form_value.splits)
  moreover have "fst (createPoll e fd b) = Inl x"
    by (simp add: createPoll_def Inl)
  ultimately show ?thesis by simp
next
  case q: (Inr q)
  then have question: "case formData_get fd (js ''question'') of
      Some (FormString q) \<Rightarrow> True | _ \<Rightarrow> False"
    by (auto dest: sanitizeInput_call_returns)
  show ?thesis
  proof (cases "sanitizeInput_map (filter truthy (formData_getAll fd (js ''options'')))")
    case (Inl x)
    then have "\<not> list_all (\<lambda>v. v \<noteq> FormFile) (filter truthy (formData_getAll fd (js ''options'')))"
      using sanitizeInput_map_returns_iff [of "filter truthy (formData_getAll fd (js ''options''))"]
      by simp
    then have "\<not> form_strings fd"
      by (simp add: form_strings_def list_all_filter_truthy)
    moreover have "fst (createPoll e fd b) = Inl x"
      by (simp add: createPoll_def q Inl)
    ultimately show ?thesis by simp
  next
    case ss: (Inr ss)
    then have "list_all (\<lambda>v. v \<noteq> FormFile) (filter truthy (formData_getAll fd (js ''options'')))"
      using sanitizeInput_map_returns_iff [of "filter truthy (formData_getAll fd (js ''options''))"]
      by simp
    then have ok: "form_strings fd"
      using question by (simp add: form_strings_def list_all_filter_truthy)
    have "\<exists>r. fst (createPoll e fd b) = Inr r"
    proof (cases "validatePollInput q ss")
      case None
      from createPoll_accepted [OF q ss None, of e b] show ?thesis
        by auto
    next
      case (Some m)
      from createPoll_rejected [OF q ss Some, of e b] show ?thesis
        by simp
    qed
    with ok show ?thesis by simp
  qed
qed

lemma createPoll_throw_keeps_store:
  "fst (createPoll e fd b) = Inl x \<Longrightarrow> snd (createPoll e fd b) = b"
  by (cases "env_auth e")
    (auto simp: createPoll_def auth_getUser_def polls_insert_def
      split: sum.splits option.splits if_splits)

lemma updatePoll_returns_iff:
  "(\<exists>r. fst (updatePoll e pid fd b) = Inr r) \<longleftrightarrow> \<not> isValidPollId pid \<or> form_strings fd"
proof (cases "isValidPollId pid")
  case False
  then show ?thesis by (simp add: updatePoll_def)
next
  case valid: True
  show ?thesis
  proof (cases "sanitizeInput_call (formData_get fd (js ''question''))")
    case (Inl x)
    then have "\<not> form_strings fd"
      by (auto simp: form_strings_def split: option.splits form_value.splits)
    moreover have "fst (updatePoll e pid fd b) = Inl x"
      by (simp add: updatePoll_def valid Inl)
    ultimately show ?thesis using valid by simp
  next
    case q: (Inr q)
    then have question: "case formData_get fd (js ''question'') of
        Some (FormString q) \<Rightarrow> True | _ \<Rightarrow> False"
      by (auto dest: sanitizeInput_call_returns)
    show ?thesis
    proof (cases "sanitizeInput_map (filter truthy (formData_getAll fd (js ''options'')))")
      case (Inl x)
      then have "\<not> list_all (\<lambda>v. v \<noteq> FormFile) (filter truthy (formData_getAll fd (js ''options'')))"
        using sanitizeInput_map_returns_iff [of "filter truthy (formData_getAll fd (js ''options''))"]
        by simp
      then have "\<not> form_strings fd"
        by (simp add: form_strings_def list_all_filter_truthy)
      moreover have "fst (updatePoll e pid fd b) = Inl x"
        by (simp add: updatePoll_def valid q Inl)
      ultimately show ?thesis using valid by simp
    next
      case ss: (Inr ss)
      then have "list_all (\<lambda>v. v \<noteq> FormFile) (filter truthy (formData_getAll fd (js ''options'')))"
        using sanitizeInput_map_returns_iff [of "filter truthy (formData_getAll fd (js ''options''))"]
        by simp
      then have ok: "form_strings fd"
        using question by (simp add: form_strings_def list_all_filter_truthy)
      have "\<exists>r. fst (updatePoll e pid fd b) = Inr r"
      proof (cases "validatePollInput q ss")
        case None
        from updatePoll_accepted [OF q ss None, of e pid b] show ?thesis
          by auto
      next
        case (Some m)
        from updatePoll_rejected [OF valid q ss Some, of e b] show ?thesis
          by simp
      qed
      with ok show ?thesis by simp
    qed
  qed
qed

lemma updatePoll_throw_keeps_store:
  "fst (updatePoll e pid fd b) = Inl x \<Longrightarrow> snd (updatePoll e pid fd b) = b"
  by (cases "env_auth e")
    (auto simp: updatePoll_def auth_getUser_def polls_update_def
      split: sum.splits option.splits if_splits)


lemma validatePollInput_messages:
  assumes "validatePollInput q ss = Some m"
  shows "m \<in> set validation_messages"
  using assms by (auto simp: validatePollInput_def validation_messages_def split: if_splits)

lemma createPoll_outcome:
  assumes "fst (createPoll e fd b) = Inr r"
  shows "error r = None \<or> (\<exists>m \<in> set (error_messages e (CreatePoll fd)). error r = Some m)"
proof -
  from assms obtain q where q: "sanitizeInput_call (formData_get fd (js ''question'')) = Inr q"
    by (cases "sanitizeInput_call (formData_get fd (js ''question''))")
      (simp_all add: createPoll_def)
  from assms q obtain ss where
    ss: "sanitizeInput_map (filter truthy (formData_getAll fd (js ''options''))) = Inr ss"
    by (cases "sanitizeInput_map (filter truthy (formData_getAll fd (js ''options'')))")
      (simp_all add: createPoll_def)
  show ?thesis
  proof (cases "validatePollInput q ss")
    case None
    from createPoll_accepted [OF q ss None, of e b] assms show ?thesis
      by auto
  next
    case (Some m)
    from createPoll_rejected [OF q ss Some, of e b] assms validatePollInput_messages [OF Some]
    show ?thesis
      by auto
  qed
qed

lemma updatePoll_outcome:
  assumes "fst (updatePoll e pid fd b) = Inr r"
  shows "error r = None \<or> (\<exists>m \<in> set (error_messages e (UpdatePoll pid fd)). error r = Some m)"
proof (cases "isValidPollId pid")
  case False
  with assms show ?thesis
    by (auto simp: updatePoll_def)
next
  case valid: True
  from assms valid obtain q where
    q: "sanitizeInput_call (formData_get fd (js ''question'')) = Inr q"
    by (cases "sanitizeInput_call (formData_get fd (js ''question''))")
      (simp_all add: updatePoll_def)
  from assms valid q obtain ss where
    ss: "sanitizeInput_map (filter truthy (formData_getAll fd (js ''options''))) = Inr ss"
    by (cases "sanitizeInput_map (filter truthy (formData_getAll fd (js ''options'')))")
      (simp_all add: updatePoll_def)
  show ?thesis
  proof (cases "validatePollInput q ss")
    case None
    from updatePoll_accepted [OF q ss None, of e pid b] assms show ?thesis
      by auto
  next
    case (Some m)
    from updatePoll_rejected [OF valid q ss Some, of e b] assms validatePollInput_messages [OF Some]
    show ?thesis
      by auto
  qed
qed

lemma getUserPolls_outcome:
  "(polls_error (fst (getUserPolls e b)) = None
      \<or> (\<exists>m \<in> set (error_messages e GetUserPolls). polls_error (fst (getUserPolls e b)) = Some m))
   \<and> (polls_error (fst (getUserPolls e b)) \<noteq> None \<longrightarrow> polls (fst (getUserPolls e b)) = [])"
  by (cases "env_auth e")
    (simp_all add: getUserPolls_def auth_getUser_def polls_select_by_user_def)

lemma getPollById_outcome:
  "(poll_error (fst (getPollById e pid b)) = None
      \<or> (\<exists>m \<in> set (error_messages e (GetPollById pid)).
            poll_error (fst (getPollById e pid b)) = Some m))
   \<and> (poll (fst (getPollById e pid b)) = None) = (poll_error (fst (getPollById e pid b)) \<noteq> None)"
  by (simp add: getPollById_def polls_select_by_id_def split: option.splits)

lemma submitVote_outcome:
  "error (fst (submitVote e pid n b)) = None
   \<or> (\<exists>m \<in> set (error_messages e (SubmitVote pid n)). error (fst (submitVote e pid n b)) = Some m)"
  by (cases "env_auth e")
    (auto simp: submitVote_def submitVote_insert_def auth_getUser_def polls_select_options_def
      votes_select_def votes_insert_def Let_def split: js_number.splits option.splits)

lemma deletePoll_outcome:
  "error (fst (deletePoll e pid b)) = None
   \<or> (\<exists>m \<in> set (error_messages e (DeletePoll pid)). error (fst (deletePoll e pid b)) = Some m)"
  by (cases "env_auth e")
    (simp_all add: deletePoll_def auth_getUser_def polls_delete_def)

lemma login_outcome:
  "error (fst (login e data b)) = env_sign_in_error e"
  by (simp add: login_def auth_signInWithPassword_def split: option.splits)

lemma register_outcome:
  "error (fst (register e data b)) = env_sign_up_error e"
  by (simp add: register_def auth_signUp_def split: option.splits)

lemma logout_outcome:
  "error (fst (logout e b)) = env_sign_out_error e"
  by (simp add: logout_def auth_signOut_def split: option.splits)

text \<open>
  Claim C3, as the code has it. An invocation of an exported handler throws exactly when
  it is \<open>createPoll\<close>, or \<open>updatePoll\<close> with an identifier of the right shape, on a form
  whose question entry is missing or not a string or which has a file among its options;
  the exception is a \<open>TypeError\<close> and the store is as it was. Every other invocation
  returns. The six handlers of \<open>poll-actions.ts\<close> and \<open>login\<close>, \<open>register\<close> and
  \<open>logout\<close> return a result object whose \<open>error\<close> is \<open>null\<close> or one of the handler's
  own messages, with a poll exactly when \<open>getPollById\<close> reports no error and no polls
  when \<open>getUserPolls\<close> reports one; \<open>getCurrentUser\<close> and \<open>getSession\<close> return a bare
  value without an \<open>error\<close> field.
\<close>

theorem exported_handlers_outcome:
  "(fst (handle e r b) = Inl TypeError \<longleftrightarrow> cast_fails r)
   \<and> (fst (handle e r b) = Inl TypeError \<longrightarrow> snd (handle e r b) = b)
   \<and> (\<not> cast_fails r \<longrightarrow>
        (\<exists>resp. fst (handle e r b) = Inr resp \<and> payload_agrees resp
           \<and> (result_error resp = None \<longleftrightarrow> r = GetCurrentUser \<or> r = GetSession)
           \<and> (\<forall>err. result_error resp = Some err \<longrightarrow>
                 err = None \<or> (\<exists>m \<in> set (error_messages e r). err = Some m))))"
proof (cases r)
  case (CreatePoll fd)
  show ?thesis
  proof (cases "fst (createPoll e fd b)")
    case (Inl x)
    then have "\<not> form_strings fd"
      using createPoll_returns_iff [of e fd b] by simp
    moreover have "snd (createPoll e fd b) = b"
      using Inl by (rule createPoll_throw_keeps_store)
    ultimately show ?thesis
      using Inl by (cases x) (simp add: CreatePoll)
  next
    case (Inr a)
    then have "form_strings fd"
      using createPoll_returns_iff [of e fd b] by simp
    moreover note createPoll_outcome [OF Inr]
    ultimately show ?thesis
      using Inr by (simp add: CreatePoll)
  qed
next
  case (UpdatePoll pid fd)
  show ?thesis
  proof (cases "fst (updatePoll e pid fd b)")
    case (Inl x)
    then have "\<not> (\<not> isValidPollId pid \<or> form_strings fd)"
      using updatePoll_returns_iff [of e pid fd b] by simp
    moreover have "snd (updatePoll e pid fd b) = b"
      using Inl by (rule updatePoll_throw_keeps_store)
    ultimately show ?thesis
      using Inl by (cases x) (simp add: UpdatePoll)
  next
    case (Inr a)
    then have "\<not> isValidPollId pid \<or> form_strings fd"
      using updatePoll_returns_iff [of e pid fd b] by auto
    moreover note updatePoll_outcome [OF Inr]
    ultimately show ?thesis
      using Inr by (simp add: UpdatePoll)
  qed
next
  case GetUserPolls
  with getUserPolls_outcome [of e b] show ?thesis
    by simp
next
  case (GetPollById pid)
  with getPollById_outcome [of e pid b] show ?thesis
    by simp
next
  case (SubmitVote pid n)
  with submitVote_outcome [of e pid n b] show ?thesis
    by simp
next
  case (DeletePoll pid)
  with deletePoll_outcome [of e pid b] show ?thesis
    by simp
next
  case (Login data)
  with login_outcome [of e data b] show ?thesis
    by (cases "env_sign_in_error e") simp_all
next
  case (Register data)
  with register_outcome [of e data b] show ?thesis
    by (cases "env_sign_up_error e") simp_all
next
  case Logout
  with logout_outcome [of e b] show ?thesis
    by (cases "env_sign_out_error e") simp_all
next
  case GetCurrentUser
  then show ?thesis by simp
next
  case GetSession
  then show ?thesis by simp
qed

text \<open>
  Claim C3 as stated fails on a form without a question entry, where \<open>sanitizeInput\<close> is
  called on \<open>null\<close>, and for \<open>getCurrentUser\<close> and \<open>getSession\<close>, whose value is not a
  result object.
\<close>

theorem exported_handlers_counterexample:
  "formData_get no_question_form (js ''question'') = None
   \<and> createPoll (env1 (User alice)) no_question_form store1 = (Inl TypeError, store1)
   \<and> updatePoll (env1 (User alice)) poll1_id no_question_form store1 = (Inl TypeError, store1)
   \<and> getCurrentUser (env1 (User alice)) store1
       = (Some alice, store1\<lparr>calls := calls store1 @ [AuthGetUser]\<rparr>)
   \<and> getSession (env1 (User alice)) store1
       = (None, store1\<lparr>calls := calls store1 @ [AuthGetSession]\<rparr>)
   \<and> result_error (UserValue (Some alice)) = None
   \<and> result_error (SessionValue None) = None"
proof -
  have "formData_get no_question_form (js ''question'') = None"
    "createPoll (env1 (User alice)) no_question_form store1 = (Inl TypeError, store1)"
    "updatePoll (env1 (User alice)) poll1_id no_question_form store1 = (Inl TypeError, store1)"
    by code_simp+
  then show ?thesis
    by (simp add: getCurrentUser_def getSession_def auth_getUser_def auth_getSession_def
        record_call_def env1_def)
qed

lemma color_form_strings: "form_strings color_form"
  by code_simp

lemma no_question_form_not_strings: "\<not> form_strings no_question_form"
  by code_simp

theorem exported_handlers_outcome_witness:
  "\<not> cast_fails (UpdatePoll poll1_id color_form)
   \<and> (\<exists>resp. fst (handle (env1 (User alice)) (UpdatePoll poll1_id color_form) store1) = Inr resp
         \<and> payload_agrees resp \<and> result_error resp \<noteq> None
         \<and> (\<forall>err. result_error resp = Some err \<longrightarrow>
               err = None
               \<or> (\<exists>m \<in> set (error_messages (env1 (User alice)) (UpdatePoll poll1_id color_form)).
                     err = Some m)))
   \<and> cast_fails (CreatePoll no_question_form)
   \<and> fst (handle (env1 (User alice)) (CreatePoll no_question_form) store1) = Inl TypeError
   \<and> snd (handle (env1 (User alice)) (CreatePoll no_question_form) store1) = store1
   \<and> (\<exists>resp. fst (handle (env1 (User alice)) GetCurrentUser store1) = Inr resp
         \<and> result_error resp = None)"
proof -
  have ok: "\<not> cast_fails (UpdatePoll poll1_id color_form)"
    by (simp add: color_form_strings)
  have bad: "cast_fails (CreatePoll no_question_form)"
    by (simp add: no_question_form_not_strings)
  have cur: "\<not> cast_fails GetCurrentUser"
    by simp
  note t1 = exported_handlers_outcome [of "env1 (User alice)" "UpdatePoll poll1_id color_form" store1]
  note t2 = exported_handlers_outcome [of "env1 (User alice)" "CreatePoll no_question_form" store1]
  note t3 = exported_handlers_outcome [of "env1 (User alice)" GetCurrentUser store1]
  from mp [OF t1 [THEN conjunct2, THEN conjunct2] ok]
  have u: "\<exists>resp. fst (handle (env1 (User alice)) (UpdatePoll poll1_id color_form) store1) = Inr resp
         \<and> payload_agrees resp \<and> result_error resp \<noteq> None
         \<and> (\<forall>err. result_error resp = Some err \<longrightarrow>
               err = None
               \<or> (\<exists>m \<in> set (error_messages (env1 (User alice)) (UpdatePoll poll1_id color_form)).
                     err = Some m))"
    by auto
  from t2 [THEN conjunct1] bad
  have th: "fst (handle (env1 (User alice)) (CreatePoll no_question_form) store1) = Inl TypeError"
    by (simp del: handle.simps)
  from mp [OF t2 [THEN conjunct2, THEN conjunct1] th]
  have st: "snd (handle (env1 (User alice)) (CreatePoll no_question_form) store1) = store1" .
  from mp [OF t3 [THEN conjunct2, THEN conjunct2] cur]
  have g: "\<exists>resp. fst (handle (env1 (User alice)) GetCurrentUser store1) = Inr resp
         \<and> result_error resp = None"
    by auto
  show ?thesis
    by (intro conjI) (fact ok u bad th st g)+
qed

end
